theory Spec2Isabelle
  imports Complex_Main "HOL-Library.Multiset" "HOL-Library.AList"
begin

section \<open>Data model\<close>

text \<open>
  The analysis pipeline of the service: \<^verbatim>\<open>analyzeFile\<close>, \<^verbatim>\<open>aggregateSources\<close>,
  \<^verbatim>\<open>getRiskLevel\<close> and the \<^verbatim>\<open>/analyze\<close> handler of the analysis router, the
  similarity scorer and the three search operations of \<^verbatim>\<open>searchService.js\<close> and
  \<^verbatim>\<open>githubService.js\<close>, and the score combination of \<^verbatim>\<open>aiDetection.js\<close>.

  JavaScript numbers are modelled as reals, strings as lists of (ASCII) characters.
  A thrown exception is a value \<open>Inl e\<close> of a sum type, a normal return is \<open>Inr v\<close>.
\<close>

datatype js_error = TypeError string | RequestFailed string

datatype source_kind = GitHub | StackOverflow | Web

datatype risk = Critical | High | Medium | Low | Minimal

text \<open>
  What a search operation returns for one hit. The web and Stack Overflow hits carry
  \<^verbatim>\<open>title\<close>, \<^verbatim>\<open>link\<close> and \<^verbatim>\<open>snippet\<close>; the GitHub hits carry \<^verbatim>\<open>url\<close> (with
  name, path and repository, which nothing below reads) and none of the other three.
  A missing property is \<open>None\<close>.
\<close>

record candidate =
  c_title :: "string option"
  c_link :: "string option"
  c_snippet :: "string option"
  c_url :: "string option"

definition try_catch :: "('e + 'a) \<Rightarrow> ('e \<Rightarrow> 'e + 'a) \<Rightarrow> 'e + 'a" where
  "try_catch body handler = (case body of Inl e \<Rightarrow> handler e | Inr v \<Rightarrow> Inr v)"

section \<open>Similarity scorer\<close>

text \<open>The character classes \<^verbatim>\<open>\s\<close> and \<^verbatim>\<open>\w\<close> of the regular expressions, on ASCII.\<close>

definition is_space :: "char \<Rightarrow> bool" where
  "is_space c = (c \<in> set [CHR '' '', CHR 0x09, CHR 0x0A, CHR 0x0B, CHR 0x0C, CHR 0x0D])"

definition is_word :: "char \<Rightarrow> bool" where
  "is_word c =
     (c \<in> set ''abcdefghijklmnopqrstuvwxyzABCDEFGHIJKLMNOPQRSTUVWXYZ0123456789_'')"

definition toLowerCase_char :: "char \<Rightarrow> char" where
  "toLowerCase_char c =
     (case map_of (zip ''ABCDEFGHIJKLMNOPQRSTUVWXYZ'' ''abcdefghijklmnopqrstuvwxyz'') c of
        Some l \<Rightarrow> l
      | None \<Rightarrow> c)"

text \<open>\<^verbatim>\<open>.replace(/\s+/g, ' ')\<close>: every maximal run of whitespace becomes one space.\<close>

function collapse_ws :: "string \<Rightarrow> string" where
  "collapse_ws [] = []"
| "collapse_ws (c # cs) =
     (if is_space c then CHR '' '' # collapse_ws (dropWhile is_space cs)
      else c # collapse_ws cs)"
  by pat_completeness auto
termination
  by (relation "measure length") (auto simp: length_dropWhile_le less_Suc_eq_le)

definition trim :: "string \<Rightarrow> string" where
  "trim s = rev (dropWhile is_space (rev (dropWhile is_space s)))"

text \<open>
  \<^verbatim>\<open>normalizeText\<close> inside \<^verbatim>\<open>calculateSimilarity\<close>: lower case, every character that is
  neither \<^verbatim>\<open>\w\<close> nor \<^verbatim>\<open>\s\<close> replaced by a space, whitespace runs collapsed, trimmed.
\<close>

definition normalizeText :: "string \<Rightarrow> string" where
  "normalizeText text =
     trim (collapse_ws (map (\<lambda>c. if is_word c \<or> is_space c then c else CHR '' '')
        (map toLowerCase_char text)))"

text \<open>
  \<^verbatim>\<open>calculateSimilarity\<close>: both texts are normalised and handed to
  \<^verbatim>\<open>compareTwoStrings\<close> of the package \<^verbatim>\<open>string-similarity\<close>. The package is not
  part of the sources, so the function it supplies is a parameter.
\<close>

definition calculateSimilarity_with ::
  "(string \<Rightarrow> string \<Rightarrow> real) \<Rightarrow> string \<Rightarrow> string \<Rightarrow> real" where
  "calculateSimilarity_with compareStrings text1 text2 =
     compareStrings (normalizeText text1) (normalizeText text2)"

text \<open>
  Modelled from the spec: \<^verbatim>\<open>compareTwoStrings\<close> of the package \<^verbatim>\<open>string-similarity\<close>,
  which \<^verbatim>\<open>searchService.js\<close> requires and which is not part of the sources. The spec
  asks for a Dice coefficient over character bigrams with identical strings scoring 1;
  the model is that coefficient as the package computes it: whitespace removed, equal
  strings score 1, a string shorter than two characters scores 0, otherwise twice the
  number of shared bigrams (counted with multiplicity, through a table of the first
  string's bigram counts) over the total number of bigrams.
\<close>

fun bigrams :: "string \<Rightarrow> (char \<times> char) list" where
  "bigrams (a # b # cs) = (a, b) # bigrams (b # cs)"
| "bigrams cs = []"

fun firstBigrams ::
  "(char \<times> char) list \<Rightarrow> (char \<times> char \<Rightarrow> nat) \<Rightarrow> (char \<times> char \<Rightarrow> nat)" where
  "firstBigrams [] m = m"
| "firstBigrams (b # bs) m = firstBigrams bs (m(b := m b + 1))"

fun intersectionSize :: "(char \<times> char \<Rightarrow> nat) \<Rightarrow> (char \<times> char) list \<Rightarrow> nat" where
  "intersectionSize m [] = 0"
| "intersectionSize m (b # bs) =
     (if m b > 0 then Suc (intersectionSize (m(b := m b - 1)) bs)
      else intersectionSize m bs)"

definition compareTwoStrings :: "string \<Rightarrow> string \<Rightarrow> real" where
  "compareTwoStrings str1 str2 =
     (let first = filter (\<lambda>c. \<not> is_space c) str1;
          second = filter (\<lambda>c. \<not> is_space c) str2
      in if first = second then 1
         else if length first < 2 \<or> length second < 2 then 0
         else 2 * real (intersectionSize (firstBigrams (bigrams first) (\<lambda>_. 0)) (bigrams second))
                / real (length first + length second - 2))"

text \<open>The scorer with the package's function as modelled.\<close>

abbreviation calculateSimilarity :: "string \<Rightarrow> string \<Rightarrow> real" where
  "calculateSimilarity \<equiv> calculateSimilarity_with compareTwoStrings"

section \<open>Risk tiers\<close>

definition getRiskLevel :: "real \<Rightarrow> risk" where
  "getRiskLevel similarity =
     (if similarity \<ge> 0.9 then Critical
      else if similarity \<ge> 0.7 then High
      else if similarity \<ge> 0.5 then Medium
      else if similarity \<ge> 0.3 then Low
      else Minimal)"

section \<open>Evidence sources\<close>

text \<open>
  The three search operations call a remote service. The remote side is a parameter:
  a function from the request (the credential sent and the query) to either a thrown
  error (no connection, rejected credentials, rate limit: the HTTP client rejects in
  each case) or the part of the response body the code reads. A property of the body
  that the code tests for presence is an option.
\<close>

record web_item =
  wi_title :: "string option"
  wi_link :: "string option"
  wi_snippet :: "string option"

record so_question =
  q_title :: "string option"
  q_link :: "string option"
  question_id :: nat
  answer_count :: nat

record gh_item =
  gi_name :: string
  gi_path :: string
  gi_repository :: string
  gi_html_url :: string

record remote =
  serpapi_get :: "string \<Rightarrow> string \<Rightarrow> js_error + web_item list option"
  so_search :: "string \<Rightarrow> string \<Rightarrow> string \<Rightarrow> js_error + so_question list option"
  so_answers :: "string \<Rightarrow> nat \<Rightarrow> js_error + string list option"
  octokit_search_code :: "string option \<Rightarrow> string \<Rightarrow> js_error + gh_item list option"

text \<open>
  \<^verbatim>\<open>searchWeb\<close>: \<open>serpApiKey\<close> is the environment variable (\<open>None\<close> when unset, and the
  empty string is falsy as well); \<open>language\<close> is falsy when empty.
\<close>

definition searchWeb ::
  "string option \<Rightarrow> remote \<Rightarrow> string \<Rightarrow> string \<Rightarrow> js_error + candidate list" where
  "searchWeb serpApiKey net query language =
     try_catch
       (case serpApiKey of
          None \<Rightarrow> Inr []
        | Some key \<Rightarrow>
            if key = [] then Inr []
            else
              (let searchQuery = (if language \<noteq> [] then query @ '' '' @ language @ '' code''
                                  else query)
               in case serpapi_get net key searchQuery of
                    Inl e \<Rightarrow> Inl e
                  | Inr organic_results \<Rightarrow>
                      (case organic_results of
                         Some items \<Rightarrow>
                           Inr (map (\<lambda>item. \<lparr>c_title = wi_title item, c_link = wi_link item,
                                              c_snippet = wi_snippet item, c_url = None\<rparr>) items)
                       | None \<Rightarrow> Inr [])))
       (\<lambda>error. Inr [])"

text \<open>
  \<^verbatim>\<open>searchStackOverflow\<close>: no test of the key; the request carries the key, or the text
  \<^verbatim>\<open>anonymous\<close> when there is none. For every question with an answer the top answer
  is fetched (a list of answer bodies) and its code extracted; the extraction is passed
  in, and the service passes its own \<^verbatim>\<open>extractCodeFromAnswer\<close>, defined below. An error
  thrown by any request leaves the loop and reaches the handler of the whole operation.
\<close>

definition so_key :: "string option \<Rightarrow> string" where
  "so_key stackOverflowApiKey =
     (case stackOverflowApiKey of
        None \<Rightarrow> ''anonymous''
      | Some key \<Rightarrow> if key = [] then ''anonymous'' else key)"

fun so_results ::
  "string \<Rightarrow> remote \<Rightarrow> (string \<Rightarrow> string) \<Rightarrow> so_question list \<Rightarrow> candidate list
    \<Rightarrow> js_error + candidate list" where
  "so_results key net extractCodeFromAnswer [] results = Inr results"
| "so_results key net extractCodeFromAnswer (question # questions) results =
     (if answer_count question > 0 then
        (case so_answers net key (question_id question) of
           Inl e \<Rightarrow> Inl e
         | Inr answer_items \<Rightarrow>
             (case answer_items of
                Some (body # rest) \<Rightarrow>
                  so_results key net extractCodeFromAnswer questions
                    (results @ [\<lparr>c_title = q_title question, c_link = q_link question,
                                  c_snippet = Some (extractCodeFromAnswer body),
                                  c_url = None\<rparr>])
              | _ \<Rightarrow> so_results key net extractCodeFromAnswer questions results))
      else so_results key net extractCodeFromAnswer questions results)"

definition searchStackOverflow ::
  "string option \<Rightarrow> remote \<Rightarrow> (string \<Rightarrow> string) \<Rightarrow> string \<Rightarrow> string
    \<Rightarrow> js_error + candidate list" where
  "searchStackOverflow stackOverflowApiKey net extractCodeFromAnswer query language =
     try_catch
       (let searchQuery = (if language \<noteq> [] then query @ '' ['' @ language @ '']'' else query)
        in case so_search net (so_key stackOverflowApiKey) searchQuery language of
             Inl e \<Rightarrow> Inl e
           | Inr items \<Rightarrow>
               (case items of
                  Some questions \<Rightarrow>
                    so_results (so_key stackOverflowApiKey) net extractCodeFromAnswer questions []
                | None \<Rightarrow> Inr []))
       (\<lambda>error. Inr [])"

text \<open>
  \<^verbatim>\<open>extractCodeFromAnswer\<close>: the captures of all matches of
  \<^verbatim>\<open>/<pre><code>([\s\S]*?)<\/code><\/pre>/g\<close>, then those of all matches of
  \<^verbatim>\<open>/<code>([^<]*)<\/code>/g\<close>, joined by line feeds. Each scan goes through the text
  once; its state is the capture begun at an opening tag, if any. A block ends at the
  first closing pair of tags; an inline capture is given up at a \<^verbatim>\<open><\<close> that does not
  begin the closing tag, and the search resumes there.
\<close>

fun scan_blocks :: "string option \<Rightarrow> string \<Rightarrow> string list" where
  "scan_blocks None [] = []"
| "scan_blocks None (c # cs) =
     (if take 11 (c # cs) = ''<pre><code>'' then scan_blocks (Some []) (drop 10 cs)
      else scan_blocks None cs)"
| "scan_blocks (Some captured) [] = []"
| "scan_blocks (Some captured) (c # cs) =
     (if take 13 (c # cs) = ''</code></pre>'' then captured # scan_blocks None (drop 12 cs)
      else scan_blocks (Some (captured @ [c])) cs)"

fun scan_inline :: "string option \<Rightarrow> string \<Rightarrow> string list" where
  "scan_inline None [] = []"
| "scan_inline None (c # cs) =
     (if take 6 (c # cs) = ''<code>'' then scan_inline (Some []) (drop 5 cs)
      else scan_inline None cs)"
| "scan_inline (Some captured) [] = []"
| "scan_inline (Some captured) (c # cs) =
     (if c = CHR ''<'' then
        (if take 7 (c # cs) = ''</code>'' then captured # scan_inline None (drop 6 cs)
         else if take 6 (c # cs) = ''<code>'' then scan_inline (Some []) (drop 5 cs)
         else scan_inline None cs)
      else scan_inline (Some (captured @ [c])) cs)"

fun join_lines :: "string list \<Rightarrow> string" where
  "join_lines [] = []"
| "join_lines [x] = x"
| "join_lines (x # y # ys) = x @ [CHR 0x0A] @ join_lines (y # ys)"

definition extractCodeFromAnswer :: "string \<Rightarrow> string" where
  "extractCodeFromAnswer answerBody =
     join_lines (scan_blocks None answerBody @ scan_inline None answerBody)"

text \<open>
  \<^verbatim>\<open>searchCode\<close> of the GitHub service: the client is built with the token of the
  environment, set or not, and the request is sent in either case. A response without
  \<^verbatim>\<open>items\<close> makes \<^verbatim>\<open>.map\<close> throw, inside the \<^verbatim>\<open>try\<close>.
\<close>

definition searchCode ::
  "string option \<Rightarrow> remote \<Rightarrow> string \<Rightarrow> string \<Rightarrow> js_error + candidate list" where
  "searchCode githubToken net query language =
     try_catch
       (let searchQuery = (if language \<noteq> [] then query @ '' language:'' @ language else query)
        in case octokit_search_code net githubToken searchQuery of
             Inl e \<Rightarrow> Inl e
           | Inr items \<Rightarrow>
               (case items of
                  Some its \<Rightarrow>
                    Inr (map (\<lambda>item. \<lparr>c_title = None, c_link = None, c_snippet = None,
                                       c_url = Some (gi_html_url item)\<rparr>) its)
                | None \<Rightarrow> Inl (TypeError ''Cannot read properties of undefined (reading map)'')))
       (\<lambda>error. Inr [])"

text \<open>
  Notions for stating what the search operations return: the query each of them sends,
  the candidate made of one item of a response, the candidates one Stack Overflow
  question contributes, and a question whose answers request throws.
\<close>

definition web_query :: "string \<Rightarrow> string \<Rightarrow> string" where
  "web_query query lang =
     (if lang \<noteq> [] then query @ '' '' @ lang @ '' code'' else query)"

definition so_query :: "string \<Rightarrow> string \<Rightarrow> string" where
  "so_query query lang =
     (if lang \<noteq> [] then query @ '' ['' @ lang @ '']'' else query)"

definition github_query :: "string \<Rightarrow> string \<Rightarrow> string" where
  "github_query query lang =
     (if lang \<noteq> [] then query @ '' language:'' @ lang else query)"

definition web_candidate :: "web_item \<Rightarrow> candidate" where
  "web_candidate item =
     \<lparr>c_title = wi_title item, c_link = wi_link item, c_snippet = wi_snippet item,
      c_url = None\<rparr>"

definition github_candidate :: "gh_item \<Rightarrow> candidate" where
  "github_candidate item =
     \<lparr>c_title = None, c_link = None, c_snippet = None, c_url = Some (gi_html_url item)\<rparr>"

definition so_candidates ::
  "string \<Rightarrow> remote \<Rightarrow> (string \<Rightarrow> string) \<Rightarrow> so_question \<Rightarrow> candidate list" where
  "so_candidates key net extract_code question =
     (if answer_count question > 0 then
        (case so_answers net key (question_id question) of
           Inr (Some (body # rest)) \<Rightarrow>
             [\<lparr>c_title = q_title question, c_link = q_link question,
               c_snippet = Some (extract_code body), c_url = None\<rparr>]
         | _ \<Rightarrow> [])
      else [])"

definition answers_fail :: "string \<Rightarrow> remote \<Rightarrow> so_question \<Rightarrow> bool" where
  "answers_fail key net question =
     (answer_count question > 0
      \<and> (case so_answers net key (question_id question) of Inl e \<Rightarrow> True | Inr a \<Rightarrow> False))"

section \<open>AI detection\<close>

text \<open>
  \<^verbatim>\<open>analyzeAIPatterns\<close> and \<^verbatim>\<open>statisticalAnalysis\<close> score measurements of the text
  (ratios and counts found with regular expressions). The measurements are the input
  here; the scoring is the code's. Each pattern that fires adds its score to
  \<^verbatim>\<open>aiScore\<close>, which is capped at 1.
\<close>

record pattern_signals =
  commentRatio :: real
  formattingScore :: real
  genericNamesScore :: real
  overEngineeringScore :: real
  personalStyleScore :: real

record pattern_analysis =
  pa_aiScore :: real
  totalPatterns :: nat

definition pattern_scores :: "pattern_signals \<Rightarrow> real list" where
  "pattern_scores sg =
     (if commentRatio sg > 0.3 then [commentRatio sg * 0.3] else [])
     @ (if formattingScore sg > 0.8 then [formattingScore sg * 0.2] else [])
     @ (if genericNamesScore sg > 0.6 then [genericNamesScore sg * 0.25] else [])
     @ (if overEngineeringScore sg > 0.7 then [overEngineeringScore sg * 0.3] else [])
     @ (if personalStyleScore sg < 0.3 then [(1 - personalStyleScore sg) * 0.2] else [])"

definition analyzeAIPatterns :: "pattern_signals \<Rightarrow> pattern_analysis" where
  "analyzeAIPatterns sg =
     \<lparr>pa_aiScore = min (sum_list (pattern_scores sg)) 1,
      totalPatterns = length (pattern_scores sg)\<rparr>"

record code_stats =
  totalLines :: nat
  commentLines :: nat
  functionCount :: nat
  classCount :: nat
  variableCount :: nat

definition statisticalAnalysis :: "code_stats \<Rightarrow> real" where
  "statisticalAnalysis stats =
     (let commentRatio = real (commentLines stats) / real (totalLines stats);
          functionDensity = real (functionCount stats) / real (totalLines stats);
          variableDensity = real (variableCount stats) / real (totalLines stats);
          aiScore = (if commentRatio > 0.2 then 0.2 else 0)
                  + (if functionDensity > 0.05 \<and> functionDensity < 0.15 then 0.2 else 0)
                  + (if variableDensity > 0.1 then 0.2 else 0)
                  + (if totalLines stats > 50 then 0.2 else 0)
                  + (if classCount stats > 0 then 0.2 else 0)
      in min aiScore 1)"

text \<open>
  The reply of the generative model: either text that \<^verbatim>\<open>JSON.parse\<close> accepts, of which
  the code reads the number \<^verbatim>\<open>aiProbability\<close> (\<open>None\<close> when the property is missing),
  or text that it rejects, from which the first match of \<^verbatim>\<open>/(\d+\.?\d*)/\<close> is taken
  and divided by 100.
\<close>

datatype model_reply = JsonReply "real option" | NonJsonReply string

definition is_digit :: "char \<Rightarrow> bool" where
  "is_digit c = (c \<in> set ''0123456789'')"

definition digit_value :: "char \<Rightarrow> nat" where
  "digit_value c =
     (case map_of (zip ''0123456789'' [0, 1, 2, 3, 4, 5, 6, 7, 8, 9]) c of
        Some d \<Rightarrow> d
      | None \<Rightarrow> 0)"

definition digits_value :: "string \<Rightarrow> nat" where
  "digits_value ds = foldl (\<lambda>n c. 10 * n + digit_value c) 0 ds"

definition probabilityMatch :: "string \<Rightarrow> (string \<times> string) option" where
  "probabilityMatch content =
     (let rest = dropWhile (\<lambda>c. \<not> is_digit c) content
      in if rest = [] then None
         else
           (case dropWhile is_digit rest of
              c # after \<Rightarrow>
                if c = CHR ''.'' then Some (takeWhile is_digit rest, takeWhile is_digit after)
                else Some (takeWhile is_digit rest, [])
            | [] \<Rightarrow> Some (takeWhile is_digit rest, [])))"

definition parseFloat :: "string \<times> string \<Rightarrow> real" where
  "parseFloat m =
     real (digits_value (fst m)) + real (digits_value (snd m)) / 10 ^ length (snd m)"

definition openaiAnalysis ::
  "(string \<Rightarrow> string \<Rightarrow> js_error + model_reply) option \<Rightarrow> string \<Rightarrow> string \<Rightarrow> real" where
  "openaiAnalysis gemini code language =
     (case gemini of
        None \<Rightarrow> 0
      | Some generateContent \<Rightarrow>
          (case generateContent language (take 2000 code) of
             Inl e \<Rightarrow> 0
           | Inr (JsonReply p) \<Rightarrow> (case p of Some r \<Rightarrow> r | None \<Rightarrow> 0)
           | Inr (NonJsonReply content) \<Rightarrow>
               (case probabilityMatch content of
                  Some m \<Rightarrow> parseFloat m / 100
                | None \<Rightarrow> 0)))"

definition calculateConfidence :: "pattern_analysis \<Rightarrow> real \<Rightarrow> real \<Rightarrow> real" where
  "calculateConfidence pattern openai statistical =
     (let c1 = (if totalPatterns pattern > 0 then real (totalPatterns pattern) * 0.1 else 0);
          f1 = (if totalPatterns pattern > 0 then 1 else 0);
          c2 = (if openai > 0 then 0.3 else 0);
          f2 = (if openai > 0 then 1 else 0);
          c3 = (if statistical > 0 then 0.2 else 0);
          f3 = (if statistical > 0 then 1 else 0);
          factors = f1 + f2 + (f3 :: nat)
      in if factors > 0 then min ((c1 + c2 + c3) / real factors) 1 else 0)"

text \<open>
  The text of a submitted file as the handler receives it from the JSON body: a string,
  another value (number, boolean, array, object: of these only the \<^verbatim>\<open>length\<close>
  property is ever read), or nothing (missing or \<^verbatim>\<open>null\<close>).
\<close>

datatype js_content = Text string | NonText "nat option" | Nullish

record verdict =
  aiProbability :: real
  confidence :: real
  patternScore :: real
  openaiScore :: real
  statisticalScore :: real
  v_error :: "string option"

record heuristics =
  signals_of :: "string \<Rightarrow> string \<Rightarrow> pattern_signals"
  stats_of :: "string \<Rightarrow> code_stats"
  gemini :: "(string \<Rightarrow> string \<Rightarrow> js_error + model_reply) option"

text \<open>
  \<^verbatim>\<open>detectAIGeneratedCode\<close>. On a value that is not a string the first
  \<^verbatim>\<open>code.split\<close> throws and the function's own handler returns the zero verdict with
  the error message.
\<close>

definition detectAIGeneratedCode :: "heuristics \<Rightarrow> js_content \<Rightarrow> string \<Rightarrow> verdict" where
  "detectAIGeneratedCode h code language =
     (case code of
        Text src \<Rightarrow>
          (let patternAnalysis = analyzeAIPatterns (signals_of h src language);
               openai = openaiAnalysis (gemini h) src language;
               statistical = statisticalAnalysis (stats_of h src)
           in \<lparr>aiProbability = pa_aiScore patternAnalysis * 0.4 + openai * 0.4 + statistical * 0.2,
               confidence = calculateConfidence patternAnalysis openai statistical,
               patternScore = pa_aiScore patternAnalysis,
               openaiScore = openai,
               statisticalScore = statistical,
               v_error = None\<rparr>)
      | NonText len \<Rightarrow>
          \<lparr>aiProbability = 0, confidence = 0, patternScore = 0, openaiScore = 0,
           statisticalScore = 0, v_error = Some ''code.split is not a function''\<rparr>
      | Nullish \<Rightarrow>
          \<lparr>aiProbability = 0, confidence = 0, patternScore = 0, openaiScore = 0,
           statisticalScore = 0,
           v_error = Some ''Cannot read properties of undefined (reading split)''\<rparr>)"

section \<open>Analysis of one file\<close>

record code_file =
  filename :: string
  content :: js_content
  language :: string

record options =
  opt_searchGitHub :: bool
  opt_searchStackOverflow :: bool
  opt_searchWeb :: bool
  detectAI :: bool
  similarityThreshold :: real

definition default_options :: options where
  "default_options =
     \<lparr>opt_searchGitHub = True, opt_searchStackOverflow = True, opt_searchWeb = True, detectAI = True,
      similarityThreshold = 0.3\<rparr>"

text \<open>
  The collaborators of \<^verbatim>\<open>analyzeFile\<close>: the AI detection's measurements and model, the
  snippet extractor on a string (regular expressions, a parameter), and the three search
  operations as the services export them (query and language to candidates).
\<close>

record deps =
  heur :: heuristics
  snippets_of :: "string \<Rightarrow> string list"
  github_searchCode :: "string \<Rightarrow> string \<Rightarrow> js_error + candidate list"
  so_searchStackOverflow :: "string \<Rightarrow> string \<Rightarrow> js_error + candidate list"
  web_searchWeb :: "string \<Rightarrow> string \<Rightarrow> js_error + candidate list"

text \<open>
  \<^verbatim>\<open>extractSearchSnippets\<close> starts with \<^verbatim>\<open>code.split\<close>, which throws on a value that
  is not a string.
\<close>

definition extractSearchSnippets :: "deps \<Rightarrow> js_content \<Rightarrow> js_error + string list" where
  "extractSearchSnippets d code =
     (case code of
        Text src \<Rightarrow> Inr (snippets_of d src)
      | NonText len \<Rightarrow> Inl (TypeError ''code.split is not a function'')
      | Nullish \<Rightarrow> Inl (TypeError ''Cannot read properties of undefined (reading split)''))"

text \<open>
  A hit after \<^verbatim>\<open>{...match, source: kind, snippet: snippet}\<close>: the properties of the
  hit, with \<^verbatim>\<open>source\<close> and \<^verbatim>\<open>snippet\<close> set after the spread, so that the hit's own
  \<^verbatim>\<open>snippet\<close> is replaced by the unit that was searched for.
\<close>

record tagged =
  t_title :: "string option"
  t_link :: "string option"
  t_url :: "string option"
  t_source :: source_kind
  t_snippet :: string

record match =
  m_title :: "string option"
  m_link :: "string option"
  m_url :: "string option"
  m_source :: source_kind
  m_snippet :: string
  m_similarity :: real
  m_risk :: risk

definition tag :: "source_kind \<Rightarrow> string \<Rightarrow> candidate \<Rightarrow> tagged" where
  "tag kind snippet c =
     \<lparr>t_title = c_title c, t_link = c_link c, t_url = c_url c, t_source = kind,
      t_snippet = snippet\<rparr>"

text \<open>One source of one unit: skipped when disabled, no hits when the call throws.\<close>

definition source_matches ::
  "bool \<Rightarrow> (js_error + candidate list) \<Rightarrow> source_kind \<Rightarrow> string \<Rightarrow> tagged list" where
  "source_matches enabled call kind snippet =
     (if enabled then
        (case call of
           Inl e \<Rightarrow> []
         | Inr found \<Rightarrow> map (tag kind snippet) found)
      else [])"

text \<open>
  The scoring loop over the hits of one unit: a hit whose \<^verbatim>\<open>snippet\<close> is truthy is
  scored, and kept when the score is above the threshold. The scorer calls the package's
  function, which is passed along from here on.
\<close>

definition scored_with ::
  "(string \<Rightarrow> string \<Rightarrow> real) \<Rightarrow> real \<Rightarrow> string \<Rightarrow> tagged \<Rightarrow> match list" where
  "scored_with compareStrings threshold snippet t =
     (if t_snippet t \<noteq> [] then
        (let similarity = calculateSimilarity_with compareStrings snippet (t_snippet t)
         in if similarity > threshold then
              [\<lparr>m_title = t_title t, m_link = t_link t, m_url = t_url t, m_source = t_source t,
                m_snippet = t_snippet t, m_similarity = similarity,
                m_risk = getRiskLevel similarity\<rparr>]
            else [])
      else [])"

definition snippet_matches_with ::
  "(string \<Rightarrow> string \<Rightarrow> real) \<Rightarrow> deps \<Rightarrow> options \<Rightarrow> string \<Rightarrow> string \<Rightarrow> match list" where
  "snippet_matches_with compareStrings d opts lang snippet =
     (let matches =
            source_matches (opt_searchGitHub opts) (github_searchCode d snippet lang) GitHub snippet
          @ source_matches (opt_searchStackOverflow opts) (so_searchStackOverflow d snippet lang)
              StackOverflow snippet
          @ source_matches (opt_searchWeb opts) (web_searchWeb d snippet lang) Web snippet
      in concat (map (scored_with compareStrings (similarityThreshold opts) snippet) matches))"

definition allMatches_with ::
  "(string \<Rightarrow> string \<Rightarrow> real) \<Rightarrow> deps \<Rightarrow> options \<Rightarrow> string \<Rightarrow> string list
    \<Rightarrow> match list" where
  "allMatches_with compareStrings d opts lang snippets =
     concat (map (snippet_matches_with compareStrings d opts lang) snippets)"

text \<open>
  \<^verbatim>\<open>allMatches.sort((a, b) => b.similarity - a.similarity)\<close>: the sort of the
  language is stable, as is the insertion sort \<open>sort_key\<close>.
\<close>

definition sort_matches :: "match list \<Rightarrow> match list" where
  "sort_matches ms = sort_key (\<lambda>m. - m_similarity m) ms"

definition plagiarism_of :: "match list \<Rightarrow> real" where
  "plagiarism_of ms =
     (if length ms > 0 then
        (let maxSimilarity = Max (set (map m_similarity ms));
             avgSimilarity = sum_list (map m_similarity ms) / real (length ms)
         in maxSimilarity * 0.7 + avgSimilarity * 0.3)
      else 0)"

record file_result =
  fr_filename :: string
  fr_language :: string
  fr_size :: "nat option"
  plagiarismScore :: real
  aiGeneratedScore :: real
  matches :: "match list"
  aiAnalysis :: "verdict option"
  fr_error :: "string option"

fun message :: "js_error \<Rightarrow> string" where
  "message (TypeError msg) = msg"
| "message (RequestFailed msg) = msg"

text \<open>
  \<^verbatim>\<open>analyzeFile\<close>. The result object is built before the \<^verbatim>\<open>try\<close>, and reading
  \<^verbatim>\<open>file.content.length\<close> there throws when there is no content. Inside the
  \<^verbatim>\<open>try\<close> the AI detection comes first and stores its score in the result; the
  handler then only adds the error message to the result as it is at that moment.
\<close>

definition ai_stage :: "deps \<Rightarrow> code_file \<Rightarrow> options \<Rightarrow> file_result \<Rightarrow> file_result" where
  "ai_stage d file opts result =
     (if detectAI opts then
        (let v = detectAIGeneratedCode (heur d) (content file) (language file)
         in result\<lparr>aiAnalysis := Some v, aiGeneratedScore := aiProbability v\<rparr>)
      else result)"

definition plagiarism_stage_with ::
  "(string \<Rightarrow> string \<Rightarrow> real) \<Rightarrow> deps \<Rightarrow> code_file \<Rightarrow> options \<Rightarrow> file_result
    \<Rightarrow> js_error + file_result" where
  "plagiarism_stage_with compareStrings d file opts result =
     (case extractSearchSnippets d (content file) of
        Inl e \<Rightarrow> Inl e
      | Inr snippets \<Rightarrow>
          (let ms = sort_matches (allMatches_with compareStrings d opts (language file) snippets)
           in Inr (result\<lparr>matches := ms, plagiarismScore := plagiarism_of ms\<rparr>)))"

definition analyzeFile_with ::
  "(string \<Rightarrow> string \<Rightarrow> real) \<Rightarrow> deps \<Rightarrow> code_file \<Rightarrow> options
    \<Rightarrow> js_error + file_result" where
  "analyzeFile_with compareStrings d file opts =
     (case content file of
        Nullish \<Rightarrow> Inl (TypeError ''Cannot read properties of undefined (reading length)'')
      | _ \<Rightarrow>
          (let result = \<lparr>fr_filename = filename file, fr_language = language file,
                         fr_size = (case content file of
                                      Text src \<Rightarrow> Some (length src)
                                    | NonText len \<Rightarrow> len
                                    | Nullish \<Rightarrow> None),
                         plagiarismScore = 0, aiGeneratedScore = 0, matches = [],
                         aiAnalysis = None, fr_error = None\<rparr>;
               result1 = ai_stage d file opts result
           in try_catch (plagiarism_stage_with compareStrings d file opts result1)
                (\<lambda>error. Inr (result1\<lparr>fr_error := Some (message error)\<rparr>))))"

text \<open>The analysis of a file as the module runs it, with the package's function as modelled.\<close>

abbreviation scored :: "real \<Rightarrow> string \<Rightarrow> tagged \<Rightarrow> match list" where
  "scored \<equiv> scored_with compareTwoStrings"

abbreviation snippet_matches :: "deps \<Rightarrow> options \<Rightarrow> string \<Rightarrow> string \<Rightarrow> match list" where
  "snippet_matches \<equiv> snippet_matches_with compareTwoStrings"

abbreviation allMatches :: "deps \<Rightarrow> options \<Rightarrow> string \<Rightarrow> string list \<Rightarrow> match list" where
  "allMatches \<equiv> allMatches_with compareTwoStrings"

abbreviation plagiarism_stage ::
  "deps \<Rightarrow> code_file \<Rightarrow> options \<Rightarrow> file_result \<Rightarrow> js_error + file_result" where
  "plagiarism_stage \<equiv> plagiarism_stage_with compareTwoStrings"

abbreviation analyzeFile :: "deps \<Rightarrow> code_file \<Rightarrow> options \<Rightarrow> js_error + file_result" where
  "analyzeFile \<equiv> analyzeFile_with compareTwoStrings"

section \<open>Aggregation over a submission\<close>

record source_agg =
  sa_source :: source_kind
  sa_title :: "string option"
  sa_link :: "string option"
  sa_files :: "string list"
  maxSimilarity :: real
  sa_totalMatches :: nat

text \<open>
  The key \<^verbatim>\<open>`${match.source}-${match.link}`\<close>; a missing link is rendered as the text
  \<^verbatim>\<open>undefined\<close>.
\<close>

fun source_name :: "source_kind \<Rightarrow> string" where
  "source_name GitHub = ''github''"
| "source_name StackOverflow = ''stackoverflow''"
| "source_name Web = ''web''"

definition link_text :: "string option \<Rightarrow> string" where
  "link_text l = (case l of None \<Rightarrow> ''undefined'' | Some t \<Rightarrow> t)"

definition source_key :: "match \<Rightarrow> string" where
  "source_key m = source_name (m_source m) @ ''-'' @ link_text (m_link m)"

text \<open>
  The body of the inner \<^verbatim>\<open>forEach\<close>. The \<^verbatim>\<open>Map\<close> is an association list in insertion
  order: \<open>AList.update\<close> replaces the entry of a key in place and appends a new key.
\<close>

definition add_match ::
  "string \<Rightarrow> (string \<times> source_agg) list \<Rightarrow> match \<Rightarrow> (string \<times> source_agg) list" where
  "add_match fname sourceMap m =
     (let key = source_key m;
          source = (case map_of sourceMap key of
                      None \<Rightarrow> \<lparr>sa_source = m_source m, sa_title = m_title m, sa_link = m_link m,
                                sa_files = [], maxSimilarity = 0, sa_totalMatches = 0\<rparr>
                    | Some entry \<Rightarrow> entry)
      in AList.update key
           (source\<lparr>sa_files := sa_files source @ [fname],
                   maxSimilarity := max (maxSimilarity source) (m_similarity m),
                   sa_totalMatches := sa_totalMatches source + 1\<rparr>)
           sourceMap)"

definition add_file_matches ::
  "(string \<times> source_agg) list \<Rightarrow> file_result \<Rightarrow> (string \<times> source_agg) list" where
  "add_file_matches sourceMap file = foldl (add_match (fr_filename file)) sourceMap (matches file)"

definition build_sourceMap :: "file_result list \<Rightarrow> (string \<times> source_agg) list" where
  "build_sourceMap files = foldl add_file_matches [] files"

record sources =
  github :: "source_agg list"
  stackoverflow :: "source_agg list"
  web :: "source_agg list"

definition of_kind :: "source_kind \<Rightarrow> (string \<times> source_agg) list \<Rightarrow> source_agg list" where
  "of_kind kind sourceMap =
     sort_key (\<lambda>a. - maxSimilarity a) (filter (\<lambda>a. sa_source a = kind) (map snd sourceMap))"

definition aggregateSources :: "file_result list \<Rightarrow> sources" where
  "aggregateSources files =
     (let sourceMap = build_sourceMap files
      in \<lparr>github = of_kind GitHub sourceMap,
          stackoverflow = of_kind StackOverflow sourceMap,
          web = of_kind Web sourceMap\<rparr>)"







record high_risk =
  hr_filename :: string
  hr_score :: real

record summary =
  s_plagiarismScore :: real
  s_aiGeneratedScore :: real
  s_totalMatches :: nat
  highRiskFiles :: "high_risk list"

record submission =
  totalFiles :: nat
  summary_of :: summary
  files :: "file_result list"
  sources_of :: sources

datatype http_error = BadRequest | ServerError string

text \<open>
  The loop of the \<^verbatim>\<open>/analyze\<close> handler over the files, one after the other; an error
  thrown by \<^verbatim>\<open>analyzeFile\<close> leaves the loop.
\<close>

fun analyze_loop ::
  "deps \<Rightarrow> options \<Rightarrow> code_file list \<Rightarrow> file_result list \<times> high_risk list \<times> nat
    \<Rightarrow> js_error + file_result list \<times> high_risk list \<times> nat" where
  "analyze_loop d opts [] acc = Inr acc"
| "analyze_loop d opts (file # rest) (results, high, totalMatches) =
     (case analyzeFile d file opts of
        Inl e \<Rightarrow> Inl e
      | Inr fileResult \<Rightarrow>
          analyze_loop d opts rest
            (results @ [fileResult],
             (if plagiarismScore fileResult > 0.7
              then high @ [\<lparr>hr_filename = filename file, hr_score = plagiarismScore fileResult\<rparr>]
              else high),
             totalMatches + length (matches fileResult)))"

definition analyze :: "deps \<Rightarrow> code_file list \<Rightarrow> options \<Rightarrow> http_error + submission" where
  "analyze d codeFiles opts =
     (if codeFiles = [] then Inl BadRequest
      else
        (case analyze_loop d opts codeFiles ([], [], 0) of
           Inl e \<Rightarrow> Inl (ServerError (''Analysis failed: '' @ message e))
         | Inr (results, high, totalMatches) \<Rightarrow>
             (let totalPlagiarismScore = foldl (\<lambda>acc file. acc + plagiarismScore file) 0 results;
                  totalAIScore = foldl (\<lambda>acc file. acc + aiGeneratedScore file) 0 results
              in Inr \<lparr>totalFiles = length codeFiles,
                      summary_of =
                        \<lparr>s_plagiarismScore = totalPlagiarismScore / real (length results),
                         s_aiGeneratedScore = totalAIScore / real (length results),
                         s_totalMatches = totalMatches,
                         highRiskFiles = high\<rparr>,
                      files = results,
                      sources_of = aggregateSources results\<rparr>)))"

section \<open>The services as the modules wire them\<close>

text \<open>
  Each service module exports one instance, built from the environment variables when
  the module is loaded.
\<close>

record credentials =
  serpApiKey :: "string option"
  stackOverflowApiKey :: "string option"
  githubToken :: "string option"

definition services ::
  "credentials \<Rightarrow> remote \<Rightarrow> heuristics \<Rightarrow> (string \<Rightarrow> string list) \<Rightarrow> deps" where
  "services env net h extract =
     \<lparr>heur = h, snippets_of = extract,
      github_searchCode = searchCode (githubToken env) net,
      so_searchStackOverflow = searchStackOverflow (stackOverflowApiKey env) net extractCodeFromAnswer,
      web_searchWeb = searchWeb (serpApiKey env) net\<rparr>"

section \<open>Example inputs\<close>

text \<open>
  A three-line file holding one function. The function pattern of the extractor matches
  the whole text, the class pattern nothing, so the text is its only unit. Its
  measurements are those the heuristics find on it: formatting 1, over-engineering 0.3,
  personal style 0.3, one function on three lines.
\<close>

definition add_unit :: string where
  "add_unit = ''function add(a, b) {'' @ [CHR 0x0A] @ ''  return a + b;'' @ [CHR 0x0A] @ ''}''"

definition add_file :: code_file where
  "add_file = \<lparr>filename = ''add.js'', content = Text add_unit, language = ''javascript''\<rparr>"

definition add_signals :: pattern_signals where
  "add_signals =
     \<lparr>commentRatio = 0, formattingScore = 1, genericNamesScore = 0,
      overEngineeringScore = 0.3, personalStyleScore = 0.3\<rparr>"

definition add_stats :: code_stats where
  "add_stats =
     \<lparr>totalLines = 3, commentLines = 0, functionCount = 1, classCount = 0, variableCount = 0\<rparr>"

definition add_heuristics :: heuristics where
  "add_heuristics =
     \<lparr>signals_of = (\<lambda>code language. add_signals), stats_of = (\<lambda>code. add_stats),
      gemini = None\<rparr>"

definition add_extract :: "string \<Rightarrow> string list" where
  "add_extract code = (if code = add_unit then [add_unit] else [])"

text \<open>
  A remote side on which only the web search answers: one page that has nothing to do
  with the query. The other two requests are rejected.
\<close>

definition unrelated_page :: web_item where
  "unrelated_page =
     \<lparr>wi_title = Some ''Unrelated page'', wi_link = Some ''https://example.org/page'',
      wi_snippet = Some ''zzz qqq''\<rparr>"

definition web_remote :: remote where
  "web_remote =
     \<lparr>serpapi_get = (\<lambda>key q. Inr (Some [unrelated_page])),
      so_search = (\<lambda>key q tagged. Inl (RequestFailed ''Request failed with status code 429'')),
      so_answers = (\<lambda>key qid. Inl (RequestFailed ''Request failed with status code 429'')),
      octokit_search_code = (\<lambda>token q. Inl (RequestFailed ''Requires authentication''))\<rparr>"

definition web_deps :: deps where
  "web_deps =
     services \<lparr>serpApiKey = Some ''k'', stackOverflowApiKey = None, githubToken = None\<rparr>
       web_remote add_heuristics add_extract"

text \<open>
  The same file with a model configured: one that reports its opinion as a percentage,
  and one that answers in prose.
\<close>

definition percent_heuristics :: heuristics where
  "percent_heuristics = add_heuristics\<lparr>gemini := Some (\<lambda>language excerpt. Inr (JsonReply (Some 75)))\<rparr>"

definition chatty_heuristics :: heuristics where
  "chatty_heuristics =
     add_heuristics\<lparr>gemini := Some (\<lambda>language excerpt.
        Inr (NonJsonReply ''Based on the 2000 characters shown, this looks AI-generated (probability 0.9).''))\<rparr>"

definition chatty_deps :: deps where
  "chatty_deps = web_deps\<lparr>heur := chatty_heuristics\<rparr>"

text \<open>What the analysis returns for the file, and for a submission of this one file.\<close>

definition page_match :: match where
  "page_match = \<lparr>m_title = Some ''Unrelated page'', m_link = Some ''https://example.org/page'',
             m_url = None, m_source = Web, m_snippet = add_unit, m_similarity = 1,
             m_risk = Critical\<rparr>"

definition add_result :: file_result where
  "add_result = \<lparr>fr_filename = ''add.js'', fr_language = ''javascript'', fr_size = Some 38,
          plagiarismScore = 1, aiGeneratedScore = 0.08,
          matches = [page_match],
          aiAnalysis = Some \<lparr>aiProbability = 0.08, confidence = 0.1, patternScore = 0.2,
             openaiScore = 0, statisticalScore = 0, v_error = None\<rparr>,
          fr_error = None\<rparr>"

definition add_submission :: submission where
  "add_submission =
     \<lparr>totalFiles = 1,
      summary_of = \<lparr>s_plagiarismScore = 1, s_aiGeneratedScore = 0.08, s_totalMatches = 1,
                    highRiskFiles = [\<lparr>hr_filename = ''add.js'', hr_score = 1\<rparr>]\<rparr>,
      files = [add_result],
      sources_of = aggregateSources [add_result]\<rparr>"

text \<open>
  A remote side that answers a Stack Overflow search whatever key comes with it, and
  rejects the web search.
\<close>

definition sort_question :: so_question where
  "sort_question =
     \<lparr>q_title = Some ''How do I sort a list?'', q_link = Some ''https://stackoverflow.com/q/1'',
      question_id = 1, answer_count = 2\<rparr>"

definition open_remote :: remote where
  "open_remote =
     \<lparr>serpapi_get = (\<lambda>key q. Inl (RequestFailed ''Request failed with status code 401'')),
      so_search = (\<lambda>key q tagged. Inr (Some [sort_question])),
      so_answers = (\<lambda>key qid. Inr (Some [''<pre><code>xs.sort()</code></pre>''])),
      octokit_search_code = (\<lambda>token q. Inr (Some []))\<rparr>"

text \<open>A file of a submission whose \<^verbatim>\<open>content\<close> property is missing.\<close>

definition no_content_file :: code_file where
  "no_content_file = \<lparr>filename = ''b.js'', content = Nullish, language = ''javascript''\<rparr>"


text \<open>
  A file of two functions separated by an empty line: the function pattern matches each
  of them, so the file has two units, and the web search returns the same page for both.
  The analysis runs without AI detection.
\<close>

definition sub_unit :: string where
  "sub_unit = ''function sub(a, b) {'' @ [CHR 0x0A] @ ''  return a - b;'' @ [CHR 0x0A] @ ''}''"





definition no_ai :: options where
  "no_ai = default_options\<lparr>detectAI := False\<rparr>"



text \<open>
  A remote side on which the Stack Overflow search finds two questions and the answers of
  the second cannot be fetched, the GitHub search finds a file, and the web search times
  out.
\<close>

definition second_question :: so_question where
  "second_question =
     \<lparr>q_title = Some ''Sorting in place'', q_link = Some ''https://stackoverflow.com/q/2'',
      question_id = 2, answer_count = 1\<rparr>"

definition sort_item :: gh_item where
  "sort_item =
     \<lparr>gi_name = ''sort.py'', gi_path = ''lib/sort.py'', gi_repository = ''someone/algorithms'',
      gi_html_url = ''https://github.com/someone/algorithms/blob/main/lib/sort.py''\<rparr>"

definition flaky_remote :: remote where
  "flaky_remote =
     \<lparr>serpapi_get = (\<lambda>key q. Inl (RequestFailed ''timeout of 10000ms exceeded'')),
      so_search = (\<lambda>key q tagged. Inr (Some [sort_question, second_question])),
      so_answers = (\<lambda>key qid. if qid = 1 then Inr (Some [''<pre><code>xs.sort()</code></pre>''])
                               else Inl (RequestFailed ''Request failed with status code 429'')),
      octokit_search_code = (\<lambda>token q. Inr (Some [sort_item]))\<rparr>"

text \<open>
  The file of two functions with the functions in the other order, a web search that
  returns two pages for every unit, and a function in the place of the package's that
  scores the first function's text 0.9 against itself, any other text 0.5 against itself
  and two different texts 0. The analysis finds the four hits at 0.5, 0.5, 0.9 and 0.9 and
  returns them with the two at 0.9 first.
\<close>

definition other_page :: web_item where
  "other_page =
     \<lparr>wi_title = Some ''Another page'', wi_link = Some ''https://example.org/other'',
      wi_snippet = Some ''lorem ipsum''\<rparr>"

definition two_page_remote :: remote where
  "two_page_remote = web_remote\<lparr>serpapi_get := (\<lambda>key q. Inr (Some [unrelated_page, other_page]))\<rparr>"

definition swapped_text :: string where
  "swapped_text = sub_unit @ [CHR 0x0A, CHR 0x0A] @ add_unit"

definition swapped_file :: code_file where
  "swapped_file = \<lparr>filename = ''swapped.js'', content = Text swapped_text, language = ''javascript''\<rparr>"

definition swapped_extract :: "string \<Rightarrow> string list" where
  "swapped_extract code = (if code = swapped_text then [sub_unit, add_unit] else [])"

definition swapped_deps :: deps where
  "swapped_deps =
     services \<lparr>serpApiKey = Some ''k'', stackOverflowApiKey = None, githubToken = None\<rparr>
       two_page_remote add_heuristics swapped_extract"

definition graded_compare :: "string \<Rightarrow> string \<Rightarrow> real" where
  "graded_compare first second =
     (if first \<noteq> second then 0
      else if first = ''function add a b return a b'' then 9 / 10
      else 1 / 2)"

definition hit :: "web_item \<Rightarrow> string \<Rightarrow> real \<Rightarrow> risk \<Rightarrow> match" where
  "hit page unit similarity tier =
     \<lparr>m_title = wi_title page, m_link = wi_link page, m_url = None, m_source = Web,
      m_snippet = unit, m_similarity = similarity, m_risk = tier\<rparr>"

definition swapped_result :: file_result where
  "swapped_result =
     \<lparr>fr_filename = ''swapped.js'', fr_language = ''javascript'', fr_size = Some 78,
      plagiarismScore = 21 / 25, aiGeneratedScore = 0,
      matches = [hit unrelated_page add_unit (9 / 10) Critical,
                 hit other_page add_unit (9 / 10) Critical,
                 hit unrelated_page sub_unit (1 / 2) Medium,
                 hit other_page sub_unit (1 / 2) Medium],
      aiAnalysis = None, fr_error = None\<rparr>"

section \<open>Properties of the similarity scorer\<close>

lemmas scorer_defs =
  calculateSimilarity_with_def compareTwoStrings_def normalizeText_def trim_def
  is_space_def is_word_def toLowerCase_char_def

lemma calculateSimilarity_same: "calculateSimilarity x x = 1"
  by (simp add: calculateSimilarity_with_def compareTwoStrings_def)

lemma intersectionSize_le_length: "intersectionSize m bs \<le> length bs"
  by (induction bs arbitrary: m) (auto simp: le_SucI)

lemma count_remove_one: "(count M)(b := count M b - 1) = count (M - {#b#})"
  by (rule ext) simp

lemma intersectionSize_le_size: "intersectionSize (count M) bs \<le> size M"
proof (induction bs arbitrary: M)
  case Nil
  then show ?case by simp
next
  case (Cons b bs)
  show ?case
  proof (cases "count M b > 0")
    case True
    then have mem: "b \<in># M" by simp
    have step: "intersectionSize (count M) (b # bs) = Suc (intersectionSize (count (M - {#b#})) bs)"
      using True by (simp only: intersectionSize.simps if_True count_remove_one)
    have "intersectionSize (count (M - {#b#})) bs \<le> size (M - {#b#})"
      by (rule Cons.IH)
    also have "size (M - {#b#}) = size M - 1"
      using mem by (simp add: size_Diff_singleton)
    finally have "intersectionSize (count (M - {#b#})) bs \<le> size M - 1" .
    moreover have "0 < size M"
      using mem by (cases "M = {#}") (auto simp: nonempty_has_size)
    ultimately show ?thesis unfolding step by linarith
  next
    case False
    with Cons.IH [of M] show ?thesis by simp
  qed
qed

lemma firstBigrams_count: "firstBigrams bs (count M) = count (M + mset bs)"
proof (induction bs arbitrary: M)
  case Nil
  then show ?case by simp
next
  case (Cons b bs)
  have eq: "(count M)(b := count M b + 1) = count (M + {#b#})"
    by (rule ext) simp
  have "firstBigrams (b # bs) (count M) = firstBigrams bs (count (M + {#b#}))"
    by (simp only: firstBigrams.simps eq)
  also have "\<dots> = count (M + {#b#} + mset bs)"
    by (rule Cons.IH)
  also have "M + {#b#} + mset bs = M + mset (b # bs)"
    by simp
  finally show ?case .
qed

lemma length_bigrams: "length (bigrams s) = length s - 1"
  by (induction s rule: bigrams.induct) auto

lemma intersection_bound:
  "intersectionSize (firstBigrams (bigrams f) (\<lambda>_. 0)) (bigrams s) \<le> length f - 1
   \<and> intersectionSize (firstBigrams (bigrams f) (\<lambda>_. 0)) (bigrams s) \<le> length s - 1"
proof -
  have "(\<lambda>_. 0) = count ({#} :: (char \<times> char) multiset)" by (rule ext) simp
  then have "firstBigrams (bigrams f) (\<lambda>_. 0) = count (mset (bigrams f))"
    using firstBigrams_count [of "bigrams f" "{#}"] by simp
  then show ?thesis
    using intersectionSize_le_size [of "mset (bigrams f)" "bigrams s"]
      intersectionSize_le_length [of "count (mset (bigrams f))" "bigrams s"]
    by (simp add: length_bigrams)
qed

lemma compareTwoStrings_bounds: "0 \<le> compareTwoStrings a b \<and> compareTwoStrings a b \<le> 1"
proof -
  define f where "f = filter (\<lambda>c. \<not> is_space c) a"
  define s where "s = filter (\<lambda>c. \<not> is_space c) b"
  define i where "i = intersectionSize (firstBigrams (bigrams f) (\<lambda>_. 0)) (bigrams s)"
  have cmp: "compareTwoStrings a b =
      (if f = s then 1 else if length f < 2 \<or> length s < 2 then 0
       else 2 * real i / real (length f + length s - 2))"
    by (simp add: compareTwoStrings_def f_def s_def i_def Let_def)
  have b: "i \<le> length f - 1" "i \<le> length s - 1"
    using intersection_bound [of f s] by (simp_all add: i_def)
  show ?thesis
  proof (cases "f = s \<or> length f < 2 \<or> length s < 2")
    case True
    then show ?thesis by (auto simp: cmp)
  next
    case False
    then have big: "2 \<le> length f" "2 \<le> length s" by auto
    with b have "2 * i \<le> length f + length s - 2" by linarith
    then have "2 * real i \<le> real (length f + length s - 2)"
      by (metis of_nat_le_iff of_nat_mult of_nat_numeral)
    moreover have "0 < real (length f + length s - 2)" using big by simp
    ultimately have "2 * real i / real (length f + length s - 2) \<le> 1" by simp
    with False show ?thesis by (simp add: cmp)
  qed
qed

lemma calculateSimilarity_bounds:
  "0 \<le> calculateSimilarity a b \<and> calculateSimilarity a b \<le> 1"
  by (simp add: calculateSimilarity_with_def compareTwoStrings_bounds)

text \<open>
  Claim C9. A text compared with itself scores exactly 1: both sides normalise to the
  same string, and the scorer answers 1 for equal strings before it looks at bigrams.
  This holds for every text, so in particular for every text that is non-empty after
  normalisation; the score of two empty texts is defined and is 1 as well.
\<close>

theorem calculateSimilarity_self:
  "calculateSimilarity x x = 1 \<and> calculateSimilarity '''' '''' = 1"
  by (simp add: calculateSimilarity_with_def compareTwoStrings_def)

theorem calculateSimilarity_self_witness:
  "normalizeText ''function add(a, b)'' = ''function add a b''
   \<and> calculateSimilarity ''function add(a, b)'' ''function add(a, b)'' = 1"
  using calculateSimilarity_self [of "''function add(a, b)''"]
  by (simp add: normalizeText_def trim_def is_space_def is_word_def toLowerCase_char_def)


section \<open>Scoring of the hits in analyzeFile\<close>

lemma add_unit_vs_page: "calculateSimilarity add_unit ''zzz qqq'' = 0"
  by (simp add: add_unit_def scorer_defs)

lemma web_deps_search:
  "web_searchWeb web_deps q l = Inr [\<lparr>c_title = Some ''Unrelated page'', c_link = Some ''https://example.org/page'', c_snippet = Some ''zzz qqq'', c_url = None\<rparr>]"
  "github_searchCode web_deps q l = Inr []"
  "so_searchStackOverflow web_deps q l = Inr []"
  by (simp_all add: web_deps_def services_def searchWeb_def searchCode_def searchStackOverflow_def
      try_catch_def web_remote_def unrelated_page_def so_key_def Let_def)

lemma add_unit_nonempty: "add_unit \<noteq> []"
  by (simp add: add_unit_def)

lemma scored_tag:
  "scored threshold snippet (tag kind snippet c) =
     (if snippet \<noteq> [] \<and> threshold < 1
      then [\<lparr>m_title = c_title c, m_link = c_link c, m_url = c_url c, m_source = kind,
             m_snippet = snippet, m_similarity = 1, m_risk = Critical\<rparr>]
      else [])"
  by (simp add: scored_with_def tag_def calculateSimilarity_same getRiskLevel_def)

lemma web_deps_matches:
  "allMatches web_deps default_options ''javascript'' [add_unit] =
    [\<lparr>m_title = Some ''Unrelated page'', m_link = Some ''https://example.org/page'',
      m_url = None, m_source = Web, m_snippet = add_unit, m_similarity = 1, m_risk = Critical\<rparr>]"
  by (simp add: allMatches_with_def snippet_matches_with_def source_matches_def web_deps_search
      default_options_def tag_def scored_with_def calculateSimilarity_same add_unit_nonempty
      getRiskLevel_def)

text \<open>
  Claim C1: the snippet text of every candidate is scored against the unit it was found
  for, a candidate at or below the threshold (0.3 by default) is discarded, and a
  surviving match carries the risk tier of its similarity. The threshold and the tiers
  are as claimed, but the candidate's own text never reaches the scorer: the unit that
  was searched for is stored over it, and the scorer compares the unit with itself. On
  the example the web search returns a page whose text shares no bigram with the unit
  (its score against the unit is 0, below the threshold); the analysis keeps it as a
  match of similarity 1 and risk \<open>Critical\<close>, and the file's plagiarism score is 1.
\<close>

theorem analyzeFile_scores_unit_against_itself:
  "map_sum message matches (analyzeFile web_deps add_file default_options) =
     Inr [\<lparr>m_title = Some ''Unrelated page'', m_link = Some ''https://example.org/page'',
           m_url = None, m_source = Web, m_snippet = add_unit, m_similarity = 1,
           m_risk = Critical\<rparr>]
   \<and> map_sum message plagiarismScore (analyzeFile web_deps add_file default_options) = Inr 1
   \<and> calculateSimilarity add_unit ''zzz qqq'' = 0"
proof -
  have ex: "snippets_of web_deps add_unit = [add_unit]"
    by (simp add: web_deps_def services_def add_extract_def)
  have "plagiarism_stage web_deps add_file default_options r =
      Inr (r\<lparr>matches := sort_matches (allMatches web_deps default_options ''javascript'' [add_unit]),
             plagiarismScore := plagiarism_of (sort_matches (allMatches web_deps default_options ''javascript'' [add_unit]))\<rparr>)" for r
    by (simp add: plagiarism_stage_with_def extractSearchSnippets_def add_file_def ex Let_def)
  then show ?thesis
    by (simp add: analyzeFile_with_def add_file_def try_catch_def web_deps_matches sort_matches_def
        plagiarism_of_def add_unit_vs_page Let_def)
qed

section \<open>What analyzeFile returns\<close>

lemma ai_stage_keeps:
  "matches (ai_stage d file opts r) = matches r"
  "plagiarismScore (ai_stage d file opts r) = plagiarismScore r"
  "fr_error (ai_stage d file opts r) = fr_error r"
  "fr_filename (ai_stage d file opts r) = fr_filename r"
  by (simp_all add: ai_stage_def Let_def)

lemma analyzeFile_Text:
  assumes "content file = Text src"
  shows "\<exists>r. analyzeFile_with cmp d file opts = Inr r
     \<and> matches r = sort_matches (allMatches_with cmp d opts (language file) (snippets_of d src))
     \<and> plagiarismScore r = plagiarism_of (matches r)
     \<and> fr_error r = None \<and> fr_filename r = filename file
     \<and> aiGeneratedScore r =
         (if detectAI opts then aiProbability (detectAIGeneratedCode (heur d) (Text src) (language file))
          else 0)"
  using assms
  by (simp add: analyzeFile_with_def plagiarism_stage_with_def extractSearchSnippets_def try_catch_def
      ai_stage_def Let_def)

lemma analyzeFile_NonText:
  assumes "content file = NonText len"
  shows "\<exists>r. analyzeFile_with cmp d file opts = Inr r
     \<and> matches r = [] \<and> plagiarismScore r = 0 \<and> aiGeneratedScore r = 0
     \<and> fr_error r = Some ''code.split is not a function'' \<and> fr_filename r = filename file"
  using assms
  by (simp add: analyzeFile_with_def plagiarism_stage_with_def extractSearchSnippets_def try_catch_def
      ai_stage_def detectAIGeneratedCode_def Let_def)

lemma analyzeFile_Nullish:
  assumes "content file = Nullish"
  shows "\<exists>e. analyzeFile_with cmp d file opts = Inl e"
  using assms by (simp add: analyzeFile_with_def)

lemma analyzeFile_result:
  assumes "analyzeFile_with cmp d file opts = Inr r"
  shows "(\<exists>src. content file = Text src
            \<and> matches r = sort_matches (allMatches_with cmp d opts (language file) (snippets_of d src)))
         \<or> matches r = []"
    and "plagiarismScore r = plagiarism_of (matches r)"
proof -
  show "(\<exists>src. content file = Text src
            \<and> matches r = sort_matches (allMatches_with cmp d opts (language file) (snippets_of d src)))
         \<or> matches r = []"
  proof (cases "content file")
    case (Text src)
    with analyzeFile_Text [OF Text, of cmp d opts] assms show ?thesis by auto
  next
    case (NonText len)
    with analyzeFile_NonText [OF NonText, of cmp d opts] assms show ?thesis by auto
  next
    case Nullish
    with analyzeFile_Nullish [OF Nullish, of cmp d opts] assms show ?thesis by auto
  qed
  show "plagiarismScore r = plagiarism_of (matches r)"
  proof (cases "content file")
    case (Text src)
    with analyzeFile_Text [OF Text, of cmp d opts] assms show ?thesis by auto
  next
    case (NonText len)
    with analyzeFile_NonText [OF NonText, of cmp d opts] assms show ?thesis
      by (auto simp: plagiarism_of_def)
  next
    case Nullish
    with analyzeFile_Nullish [OF Nullish, of cmp d opts] assms show ?thesis by auto
  qed
qed

section \<open>The plagiarism score of a file\<close>

text \<open>
  Claim C2. Whenever \<^verbatim>\<open>analyzeFile\<close> returns a result, whatever the package's
  function computes: with at least one retained match the plagiarism score is the largest
  similarity times 0.7 plus the mean similarity times 0.3; with exactly one match it is
  that match's similarity; with no match it is 0.
\<close>

theorem analyzeFile_plagiarismScore:
  assumes "analyzeFile_with compareStrings d file opts = Inr r"
  shows "(matches r \<noteq> [] \<longrightarrow>
            plagiarismScore r =
              Max (set (map m_similarity (matches r))) * 0.7
              + (sum_list (map m_similarity (matches r)) / real (length (matches r))) * 0.3)
       \<and> (\<forall>m. matches r = [m] \<longrightarrow> plagiarismScore r = m_similarity m)
       \<and> (matches r = [] \<longrightarrow> plagiarismScore r = 0)"
proof -
  have p: "plagiarismScore r = plagiarism_of (matches r)"
    using assms by (rule analyzeFile_result(2))
  show ?thesis
    unfolding p by (auto simp: plagiarism_of_def Let_def)
qed

lemma add_analysis: "analyzeFile web_deps add_file default_options = Inr add_result"
proof -
  have ex: "snippets_of web_deps add_unit = [add_unit]"
    by (simp add: web_deps_def services_def add_extract_def)
  have len: "length add_unit = 38" by (simp add: add_unit_def)
  have h: "heur web_deps = add_heuristics" by (simp add: web_deps_def services_def)
  have o: "detectAI default_options" by (simp add: default_options_def)
  have v: "detectAIGeneratedCode add_heuristics (Text add_unit) ''javascript'' =
      \<lparr>aiProbability = 0.08, confidence = 0.1, patternScore = 0.2,
             openaiScore = 0, statisticalScore = 0, v_error = None\<rparr>"
    by (simp add: detectAIGeneratedCode_def add_heuristics_def add_signals_def add_stats_def
        analyzeAIPatterns_def pattern_scores_def openaiAnalysis_def statisticalAnalysis_def
        calculateConfidence_def Let_def)
  have "plagiarism_stage web_deps add_file default_options r =
      Inr (r\<lparr>matches := sort_matches (allMatches web_deps default_options ''javascript'' [add_unit]),
             plagiarismScore := plagiarism_of (sort_matches (allMatches web_deps default_options ''javascript'' [add_unit]))\<rparr>)" for r
    by (simp add: plagiarism_stage_with_def extractSearchSnippets_def add_file_def ex Let_def)
  then show ?thesis
    by (simp add: analyzeFile_with_def ai_stage_def h v o add_file_def try_catch_def web_deps_matches
        sort_matches_def plagiarism_of_def len add_result_def page_match_def Let_def)
qed

section \<open>Order of the matches\<close>

lemma sort_matches_sorted:
  "sorted_wrt (\<lambda>a b. m_similarity a \<ge> m_similarity b) (sort_matches ms)"
proof -
  have "sorted (map (\<lambda>m. - m_similarity m) (sort_key (\<lambda>m. - m_similarity m) ms))"
    by (rule sorted_sort_key)
  then show ?thesis
    by (simp add: sort_matches_def sorted_map)
qed

lemma sort_matches_stable:
  "filter (\<lambda>m. m_similarity m = s) (sort_matches ms) = filter (\<lambda>m. m_similarity m = s) ms"
proof -
  have "filter (\<lambda>m. - m_similarity m = - s) (sort_key (\<lambda>m. - m_similarity m) ms)
      = filter (\<lambda>m. - m_similarity m = - s) ms"
    by (rule sort_key_stable)
  then show ?thesis by (simp add: sort_matches_def)
qed

lemma sort_matches_mset: "mset (sort_matches ms) = mset ms"
  by (simp add: sort_matches_def)

text \<open>
  Claim C8. In every result of \<^verbatim>\<open>analyzeFile\<close>, whatever the package's function
  computes, the matches are in descending order of similarity, they are the retained hits
  and no others, and the matches of one similarity keep the order in which they were
  found (units in extraction order, for each unit GitHub, then Stack Overflow, then the
  web, each in the order the source returned). The order is a function of what the
  sources return.
\<close>

theorem analyzeFile_matches_sorted:
  assumes "analyzeFile_with compareStrings d file opts = Inr r"
  shows "sorted_wrt (\<lambda>a b. m_similarity a \<ge> m_similarity b) (matches r)
       \<and> (\<forall>src. content file = Text src \<longrightarrow>
            mset (matches r)
              = mset (allMatches_with compareStrings d opts (language file) (snippets_of d src))
            \<and> (\<forall>s. filter (\<lambda>m. m_similarity m = s) (matches r)
                   = filter (\<lambda>m. m_similarity m = s)
                       (allMatches_with compareStrings d opts (language file)
                          (snippets_of d src))))"
proof (cases "content file")
  case (Text src)
  from analyzeFile_Text [OF Text, of compareStrings d opts] assms
  have "matches r =
      sort_matches (allMatches_with compareStrings d opts (language file) (snippets_of d src))"
    by auto
  with Text show ?thesis
    by (simp add: sort_matches_sorted sort_matches_stable sort_matches_mset)
next
  case (NonText len)
  from analyzeFile_NonText [OF NonText, of compareStrings d opts] assms have "matches r = []"
    by auto
  with NonText show ?thesis by simp
next
  case Nullish
  from analyzeFile_Nullish [OF Nullish, of compareStrings d opts] assms show ?thesis by auto
qed

section \<open>The score and the order on graded similarities\<close>

lemma sub_unit_nonempty: "sub_unit \<noteq> []"
  by (simp add: sub_unit_def)

lemma normalized_units:
  "normalizeText add_unit = ''function add a b return a b''"
  "normalizeText sub_unit = ''function sub a b return a b''"
  by (simp_all add: add_unit_def sub_unit_def normalizeText_def trim_def is_space_def is_word_def
      toLowerCase_char_def)

lemma graded_units:
  "calculateSimilarity_with graded_compare add_unit add_unit = 9 / 10"
  "calculateSimilarity_with graded_compare sub_unit sub_unit = 1 / 2"
  by (simp_all add: calculateSimilarity_with_def normalized_units graded_compare_def)

lemma swapped_deps_search:
  "web_searchWeb swapped_deps q l = Inr [web_candidate unrelated_page, web_candidate other_page]"
  "github_searchCode swapped_deps q l = Inr []"
  "so_searchStackOverflow swapped_deps q l = Inr []"
  by (simp_all add: swapped_deps_def services_def searchWeb_def searchCode_def
      searchStackOverflow_def try_catch_def two_page_remote_def web_remote_def so_key_def
      web_candidate_def Let_def)

lemma swapped_matches:
  "allMatches_with graded_compare swapped_deps no_ai ''javascript'' [sub_unit, add_unit] =
     [hit unrelated_page sub_unit (1 / 2) Medium, hit other_page sub_unit (1 / 2) Medium,
      hit unrelated_page add_unit (9 / 10) Critical, hit other_page add_unit (9 / 10) Critical]"
  by (simp add: allMatches_with_def snippet_matches_with_def source_matches_def swapped_deps_search
      default_options_def no_ai_def tag_def scored_with_def graded_units add_unit_nonempty
      sub_unit_nonempty getRiskLevel_def hit_def web_candidate_def)

lemma swapped_sorted:
  "sort_matches
     [hit unrelated_page sub_unit (1 / 2) Medium, hit other_page sub_unit (1 / 2) Medium,
      hit unrelated_page add_unit (9 / 10) Critical, hit other_page add_unit (9 / 10) Critical] =
     [hit unrelated_page add_unit (9 / 10) Critical, hit other_page add_unit (9 / 10) Critical,
      hit unrelated_page sub_unit (1 / 2) Medium, hit other_page sub_unit (1 / 2) Medium]"
  by (simp add: sort_matches_def hit_def)

lemma swapped_snippets: "snippets_of swapped_deps swapped_text = [sub_unit, add_unit]"
  by (simp add: swapped_deps_def services_def swapped_extract_def)

lemma swapped_analysis:
  "analyzeFile_with graded_compare swapped_deps swapped_file no_ai = Inr swapped_result"
proof -
  have len: "length swapped_text = 78" by (simp add: swapped_text_def add_unit_def sub_unit_def)
  have o: "\<not> detectAI no_ai" by (simp add: no_ai_def default_options_def)
  have "plagiarism_stage_with graded_compare swapped_deps swapped_file no_ai r =
      Inr (r\<lparr>matches := matches swapped_result,
             plagiarismScore := plagiarism_of (matches swapped_result)\<rparr>)" for r
    by (simp add: plagiarism_stage_with_def extractSearchSnippets_def swapped_file_def
        swapped_snippets swapped_matches swapped_sorted swapped_result_def Let_def)
  moreover have "plagiarism_of (matches swapped_result) = 21 / 25"
    by (simp add: plagiarism_of_def swapped_result_def hit_def Let_def)
  moreover have "content swapped_file = Text swapped_text" "filename swapped_file = ''swapped.js''"
    "language swapped_file = ''javascript''"
    by (simp_all add: swapped_file_def)
  ultimately show ?thesis
    by (simp add: analyzeFile_with_def ai_stage_def o try_catch_def len swapped_result_def Let_def)
qed

theorem analyzeFile_plagiarismScore_witness:
  "analyzeFile_with graded_compare swapped_deps swapped_file no_ai = Inr swapped_result
   \<and> map m_similarity (matches swapped_result) = [9 / 10, 9 / 10, 1 / 2, 1 / 2]
   \<and> Max (set (map m_similarity (matches swapped_result))) = 9 / 10
   \<and> sum_list (map m_similarity (matches swapped_result))
       / real (length (matches swapped_result)) = 7 / 10
   \<and> plagiarismScore swapped_result = 21 / 25
   \<and> plagiarismScore swapped_result =
       Max (set (map m_similarity (matches swapped_result))) * 0.7
       + (sum_list (map m_similarity (matches swapped_result))
          / real (length (matches swapped_result))) * 0.3
   \<and> analyzeFile web_deps add_file default_options = Inr add_result
   \<and> matches add_result = [page_match]
   \<and> plagiarismScore add_result = m_similarity page_match"
proof -
  have m: "map m_similarity (matches swapped_result) = [9 / 10, 9 / 10, 1 / 2, 1 / 2]"
    by (simp add: swapped_result_def hit_def)
  have ne: "matches swapped_result \<noteq> []" by (simp add: swapped_result_def)
  have l: "length (matches swapped_result) = 4" by (simp add: swapped_result_def)
  have a: "matches add_result = [page_match]" by (simp add: add_result_def)
  from analyzeFile_plagiarismScore [OF swapped_analysis] analyzeFile_plagiarismScore [OF add_analysis]
    swapped_analysis add_analysis
  show ?thesis
    by (simp add: m ne l a)
qed

theorem analyzeFile_matches_sorted_witness:
  "analyzeFile_with graded_compare swapped_deps swapped_file no_ai = Inr swapped_result
   \<and> content swapped_file = Text swapped_text
   \<and> allMatches_with graded_compare swapped_deps no_ai (language swapped_file)
         (snippets_of swapped_deps swapped_text)
       = [hit unrelated_page sub_unit (1 / 2) Medium, hit other_page sub_unit (1 / 2) Medium,
          hit unrelated_page add_unit (9 / 10) Critical, hit other_page add_unit (9 / 10) Critical]
   \<and> matches swapped_result
       = [hit unrelated_page add_unit (9 / 10) Critical, hit other_page add_unit (9 / 10) Critical,
          hit unrelated_page sub_unit (1 / 2) Medium, hit other_page sub_unit (1 / 2) Medium]
   \<and> sorted_wrt (\<lambda>a b. m_similarity a \<ge> m_similarity b) (matches swapped_result)
   \<and> filter (\<lambda>m. m_similarity m = 9 / 10) (matches swapped_result)
       = [hit unrelated_page add_unit (9 / 10) Critical, hit other_page add_unit (9 / 10) Critical]
   \<and> filter (\<lambda>m. m_similarity m = 1 / 2) (matches swapped_result)
       = [hit unrelated_page sub_unit (1 / 2) Medium, hit other_page sub_unit (1 / 2) Medium]"
proof -
  have c: "content swapped_file = Text swapped_text"
    and l: "language swapped_file = ''javascript''"
    by (simp_all add: swapped_file_def)
  have m: "matches swapped_result
       = [hit unrelated_page add_unit (9 / 10) Critical, hit other_page add_unit (9 / 10) Critical,
          hit unrelated_page sub_unit (1 / 2) Medium, hit other_page sub_unit (1 / 2) Medium]"
    by (simp add: swapped_result_def)
  have s: "m_similarity (hit page unit similarity tier) = similarity" for page unit similarity tier
    by (simp add: hit_def)
  from analyzeFile_matches_sorted [OF swapped_analysis] swapped_analysis c
  show ?thesis
    by (simp add: l swapped_snippets swapped_matches m s)
qed

section \<open>The AI probability\<close>

lemma pattern_scores_nonneg: "x \<in> set (pattern_scores sg) \<Longrightarrow> 0 \<le> x"
  by (auto simp: pattern_scores_def split: if_splits)

lemma analyzeAIPatterns_bounds:
  "0 \<le> pa_aiScore (analyzeAIPatterns sg) \<and> pa_aiScore (analyzeAIPatterns sg) \<le> 1"
proof -
  have "0 \<le> sum_list (pattern_scores sg)"
    by (rule sum_list_nonneg) (rule pattern_scores_nonneg)
  then show ?thesis by (simp add: analyzeAIPatterns_def)
qed

lemma statisticalAnalysis_bounds:
  "0 \<le> statisticalAnalysis stats \<and> statisticalAnalysis stats \<le> 1"
  by (simp add: statisticalAnalysis_def Let_def)

lemma weighted_bounds:
  fixes p o' s :: real
  assumes "0 \<le> p" "p \<le> 1" "0 \<le> o'" "o' \<le> 1" "0 \<le> s" "s \<le> 1"
  shows "0 \<le> p * 0.4 + o' * 0.4 + s * 0.2 \<and> p * 0.4 + o' * 0.4 + s * 0.2 \<le> 1"
  using assms by simp

lemma detectAI_Text:
  "aiProbability (detectAIGeneratedCode h (Text src) lang) =
     pa_aiScore (analyzeAIPatterns (signals_of h src lang)) * 0.4
     + openaiAnalysis (gemini h) src lang * 0.4
     + statisticalAnalysis (stats_of h src) * 0.2"
  "patternScore (detectAIGeneratedCode h (Text src) lang) = pa_aiScore (analyzeAIPatterns (signals_of h src lang))"
  "openaiScore (detectAIGeneratedCode h (Text src) lang) = openaiAnalysis (gemini h) src lang"
  "statisticalScore (detectAIGeneratedCode h (Text src) lang) = statisticalAnalysis (stats_of h src)"
  by (simp_all add: detectAIGeneratedCode_def Let_def)

lemma detectAI_bounded:
  assumes "0 \<le> openaiAnalysis (gemini h) src lang" "openaiAnalysis (gemini h) src lang \<le> 1"
  shows "0 \<le> aiProbability (detectAIGeneratedCode h (Text src) lang)
       \<and> aiProbability (detectAIGeneratedCode h (Text src) lang) \<le> 1"
  unfolding detectAI_Text
  using weighted_bounds analyzeAIPatterns_bounds statisticalAnalysis_bounds assms by blast

text \<open>
  Claim C3, as amended. On a text the AI probability is the pattern score times 0.4 plus
  the model's opinion times 0.4 plus the statistical score times 0.2. The pattern score
  and the statistical score lie between 0 and 1. The sum is not clamped: it lies between
  0 and 1 whenever the model's opinion does.
\<close>

theorem detectAIGeneratedCode_weighted:
  "aiProbability (detectAIGeneratedCode h (Text src) lang) =
     patternScore (detectAIGeneratedCode h (Text src) lang) * 0.4
     + openaiScore (detectAIGeneratedCode h (Text src) lang) * 0.4
     + statisticalScore (detectAIGeneratedCode h (Text src) lang) * 0.2
   \<and> patternScore (detectAIGeneratedCode h (Text src) lang) =
       pa_aiScore (analyzeAIPatterns (signals_of h src lang))
   \<and> openaiScore (detectAIGeneratedCode h (Text src) lang) = openaiAnalysis (gemini h) src lang
   \<and> statisticalScore (detectAIGeneratedCode h (Text src) lang) =
       statisticalAnalysis (stats_of h src)
   \<and> 0 \<le> patternScore (detectAIGeneratedCode h (Text src) lang)
   \<and> patternScore (detectAIGeneratedCode h (Text src) lang) \<le> 1
   \<and> 0 \<le> statisticalScore (detectAIGeneratedCode h (Text src) lang)
   \<and> statisticalScore (detectAIGeneratedCode h (Text src) lang) \<le> 1
   \<and> (0 \<le> openaiScore (detectAIGeneratedCode h (Text src) lang)
        \<and> openaiScore (detectAIGeneratedCode h (Text src) lang) \<le> 1
      \<longrightarrow> 0 \<le> aiProbability (detectAIGeneratedCode h (Text src) lang)
          \<and> aiProbability (detectAIGeneratedCode h (Text src) lang) \<le> 1)"
  using detectAI_bounded [of h src lang]
  by (simp add: detectAI_Text analyzeAIPatterns_bounds statisticalAnalysis_bounds)

theorem detectAIGeneratedCode_weighted_witness:
  "openaiScore (detectAIGeneratedCode add_heuristics (Text add_unit) ''javascript'') = 0
   \<and> patternScore (detectAIGeneratedCode add_heuristics (Text add_unit) ''javascript'') = 0.2
   \<and> statisticalScore (detectAIGeneratedCode add_heuristics (Text add_unit) ''javascript'') = 0
   \<and> aiProbability (detectAIGeneratedCode add_heuristics (Text add_unit) ''javascript'') = 0.08
   \<and> 0 \<le> aiProbability (detectAIGeneratedCode add_heuristics (Text add_unit) ''javascript'')
   \<and> aiProbability (detectAIGeneratedCode add_heuristics (Text add_unit) ''javascript'') \<le> 1"
  using detectAIGeneratedCode_weighted [of add_heuristics add_unit "''javascript''"]
  by (simp add: add_heuristics_def add_signals_def add_stats_def
        analyzeAIPatterns_def pattern_scores_def openaiAnalysis_def statisticalAnalysis_def Let_def)

text \<open>
  The claim as stated fails: a reply of the model whose \<^verbatim>\<open>aiProbability\<close> is 75 (a
  percentage) gives an AI probability above 1.
\<close>

theorem aiProbability_not_clamped:
  "\<not> aiProbability (detectAIGeneratedCode percent_heuristics (Text add_unit) ''javascript'') \<le> 1"
  by (simp add: detectAI_Text percent_heuristics_def add_heuristics_def add_signals_def add_stats_def
        analyzeAIPatterns_def pattern_scores_def openaiAnalysis_def statisticalAnalysis_def Let_def)

section \<open>Ranges of the scores\<close>

lemma scored_bounds:
  "m \<in> set (scored threshold snippet t) \<Longrightarrow> 0 \<le> m_similarity m \<and> m_similarity m \<le> 1"
  using calculateSimilarity_bounds [of snippet "t_snippet t"]
  by (auto simp: scored_with_def Let_def split: if_splits)

lemma allMatches_bounds:
  "m \<in> set (allMatches d opts lang snippets) \<Longrightarrow> 0 \<le> m_similarity m \<and> m_similarity m \<le> 1"
  by (auto simp: allMatches_with_def snippet_matches_with_def Let_def dest: scored_bounds)

lemma sum_list_le_length:
  fixes xs :: "real list"
  assumes "\<And>x. x \<in> set xs \<Longrightarrow> x \<le> 1"
  shows "sum_list xs \<le> real (length xs)"
  using assms by (induction xs) (simp, force)

lemma plagiarism_of_bounds:
  assumes "\<And>m. m \<in> set ms \<Longrightarrow> 0 \<le> m_similarity m \<and> m_similarity m \<le> 1"
  shows "0 \<le> plagiarism_of ms \<and> plagiarism_of ms \<le> 1"
proof (cases "ms = []")
  case True
  then show ?thesis by (simp add: plagiarism_of_def)
next
  case False
  define xs where "xs = map m_similarity ms"
  have ne: "xs \<noteq> []" using False by (simp add: xs_def)
  have each: "\<And>x. x \<in> set xs \<Longrightarrow> 0 \<le> x \<and> x \<le> 1" using assms by (auto simp: xs_def)
  have "Max (set xs) \<in> set xs" using ne by (intro Max_in) auto
  then have mx: "0 \<le> Max (set xs)" "Max (set xs) \<le> 1" using each by auto
  have s0: "0 \<le> sum_list xs" by (rule sum_list_nonneg) (simp add: each)
  have s1: "sum_list xs \<le> real (length xs)" by (rule sum_list_le_length) (simp add: each)
  have len: "0 < real (length xs)" using ne by simp
  have av: "0 \<le> sum_list xs / real (length xs)" "sum_list xs / real (length xs) \<le> 1"
    using s0 s1 len by simp_all
  have "plagiarism_of ms = Max (set xs) * 0.7 + (sum_list xs / real (length xs)) * 0.3"
    using False by (simp add: plagiarism_of_def xs_def Let_def)
  with mx av show ?thesis by simp
qed

lemma analyzeFile_bounds:
  assumes "analyzeFile d file opts = Inr r"
  shows "(\<forall>m \<in> set (matches r). 0 \<le> m_similarity m \<and> m_similarity m \<le> 1)
       \<and> 0 \<le> plagiarismScore r \<and> plagiarismScore r \<le> 1"
proof -
  have ms: "\<And>m. m \<in> set (matches r) \<Longrightarrow> 0 \<le> m_similarity m \<and> m_similarity m \<le> 1"
  proof -
    fix m assume m: "m \<in> set (matches r)"
    from analyzeFile_result(1) [OF assms] m
    obtain src where "matches r = sort_matches (allMatches d opts (language file) (snippets_of d src))"
      by auto
    with m have "m \<in> set (allMatches d opts (language file) (snippets_of d src))"
      by (simp add: sort_matches_def)
    then show "0 \<le> m_similarity m \<and> m_similarity m \<le> 1" by (rule allMatches_bounds)
  qed
  have "plagiarismScore r = plagiarism_of (matches r)"
    using assms by (rule analyzeFile_result(2))
  with plagiarism_of_bounds [of "matches r"] ms show ?thesis by auto
qed

lemma analyzeFile_ai_bounds:
  assumes "analyzeFile d file opts = Inr r"
    and "\<And>src lang. 0 \<le> openaiAnalysis (gemini (heur d)) src lang
                    \<and> openaiAnalysis (gemini (heur d)) src lang \<le> 1"
  shows "0 \<le> aiGeneratedScore r \<and> aiGeneratedScore r \<le> 1"
proof (cases "content file")
  case (Text src)
  from analyzeFile_Text [OF Text, of compareTwoStrings d opts] assms(1)
  have "aiGeneratedScore r =
         (if detectAI opts then aiProbability (detectAIGeneratedCode (heur d) (Text src) (language file))
          else 0)" by auto
  with detectAI_bounded [of "heur d" src "language file"] assms(2) show ?thesis by auto
next
  case (NonText len)
  from analyzeFile_NonText [OF NonText, of compareTwoStrings d opts] assms(1) show ?thesis by auto
next
  case Nullish
  from analyzeFile_Nullish [OF Nullish, of compareTwoStrings d opts] assms(1) show ?thesis by auto
qed

lemma analyze_loop_results:
  assumes "analyze_loop d opts fs (results, high, n) = Inr (results', high', n')"
  shows "\<exists>rs. results' = results @ rs \<and> list_all2 (\<lambda>f r. analyzeFile d f opts = Inr r) fs rs"
  using assms
proof (induction fs arbitrary: results high n)
  case Nil
  then show ?case by simp
next
  case (Cons f fs)
  from Cons.prems obtain r where r: "analyzeFile d f opts = Inr r"
    by (cases "analyzeFile d f opts") auto
  with Cons.prems obtain high1 n1 where
    "analyze_loop d opts fs (results @ [r], high1, n1) = Inr (results', high', n')"
    by auto
  from Cons.IH [OF this] obtain rs where
    "results' = (results @ [r]) @ rs" "list_all2 (\<lambda>f r. analyzeFile d f opts = Inr r) fs rs"
    by blast
  with r have "results' = results @ (r # rs) \<and> list_all2 (\<lambda>f r. analyzeFile d f opts = Inr r) (f # fs) (r # rs)"
    by simp
  then show ?case by blast
qed

lemma foldl_plus: "foldl (\<lambda>acc x. acc + g x) (a::real) xs = a + sum_list (map g xs)"
  by (induction xs arbitrary: a) simp_all

lemma mean_bounds:
  assumes "xs \<noteq> []" and "\<And>x. x \<in> set xs \<Longrightarrow> 0 \<le> g x \<and> g x \<le> (1::real)"
  shows "0 \<le> foldl (\<lambda>acc x. acc + g x) 0 xs / real (length xs)
       \<and> foldl (\<lambda>acc x. acc + g x) 0 xs / real (length xs) \<le> 1"
proof -
  have s0: "0 \<le> sum_list (map g xs)" by (rule sum_list_nonneg) (auto simp: assms(2))
  have "sum_list (map g xs) \<le> real (length (map g xs))"
    by (rule sum_list_le_length) (auto simp: assms(2))
  then have s1: "sum_list (map g xs) \<le> real (length xs)" by simp
  have "0 < real (length xs)" using assms(1) by simp
  with s0 s1 show ?thesis by (simp add: foldl_plus)
qed

lemma list_all2_right:
  assumes "list_all2 P xs ys" and "y \<in> set ys"
  shows "\<exists>x \<in> set xs. P x y"
  using assms by (induction rule: list_all2_induct) auto

lemma analyze_files:
  assumes "analyze d codeFiles opts = Inr sub"
  shows "codeFiles \<noteq> []"
    and "list_all2 (\<lambda>f r. analyzeFile d f opts = Inr r) codeFiles (files sub)"
    and "s_plagiarismScore (summary_of sub) =
           foldl (\<lambda>acc file. acc + plagiarismScore file) 0 (files sub) / real (length (files sub))"
    and "s_aiGeneratedScore (summary_of sub) =
           foldl (\<lambda>acc file. acc + aiGeneratedScore file) 0 (files sub) / real (length (files sub))"
    and "sources_of sub = aggregateSources (files sub)"
proof -
  show ne: "codeFiles \<noteq> []"
    using assms by (cases "codeFiles = []") (simp_all add: analyze_def)
  obtain results high n where
    loop: "analyze_loop d opts codeFiles ([], [], 0) = Inr (results, high, n)"
  proof (cases "analyze_loop d opts codeFiles ([], [], 0)")
    case (Inl e)
    with assms ne show ?thesis by (simp add: analyze_def)
  next
    case (Inr x)
    then show ?thesis using that by (cases x) simp
  qed
  have sub: "sub =
      \<lparr>totalFiles = length codeFiles,
       summary_of =
         \<lparr>s_plagiarismScore =
            foldl (\<lambda>acc file. acc + plagiarismScore file) 0 results / real (length results),
          s_aiGeneratedScore =
            foldl (\<lambda>acc file. acc + aiGeneratedScore file) 0 results / real (length results),
          s_totalMatches = n, highRiskFiles = high\<rparr>,
       files = results, sources_of = aggregateSources results\<rparr>"
    using assms ne loop by (simp add: analyze_def Let_def)
  have f: "files sub = results" by (simp add: sub)
  from analyze_loop_results [OF loop]
  show "list_all2 (\<lambda>f r. analyzeFile d f opts = Inr r) codeFiles (files sub)"
    by (simp add: f)
  show "s_plagiarismScore (summary_of sub) =
           foldl (\<lambda>acc file. acc + plagiarismScore file) 0 (files sub) / real (length (files sub))"
    unfolding f by (simp add: sub)
  show "s_aiGeneratedScore (summary_of sub) =
           foldl (\<lambda>acc file. acc + aiGeneratedScore file) 0 (files sub) / real (length (files sub))"
    unfolding f by (simp add: sub)
  show "sources_of sub = aggregateSources (files sub)"
    unfolding f by (simp add: sub)
qed

text \<open>
  Claim C4, as amended. In every submission result each match's similarity, each file's
  plagiarism score and the summary's plagiarism score lie between 0 and 1. Each file's AI
  score and the summary's AI score lie between 0 and 1 provided the model's opinion does
  (as it does when no model is configured); the opinion itself is not clamped.
\<close>

theorem analyze_scores_bounded:
  assumes "analyze d codeFiles opts = Inr sub"
  shows "(\<forall>r \<in> set (files sub).
            (\<forall>m \<in> set (matches r). 0 \<le> m_similarity m \<and> m_similarity m \<le> 1)
            \<and> 0 \<le> plagiarismScore r \<and> plagiarismScore r \<le> 1)
       \<and> 0 \<le> s_plagiarismScore (summary_of sub) \<and> s_plagiarismScore (summary_of sub) \<le> 1
       \<and> ((\<forall>src lang. 0 \<le> openaiAnalysis (gemini (heur d)) src lang
                       \<and> openaiAnalysis (gemini (heur d)) src lang \<le> 1)
          \<longrightarrow> (\<forall>r \<in> set (files sub). 0 \<le> aiGeneratedScore r \<and> aiGeneratedScore r \<le> 1)
              \<and> 0 \<le> s_aiGeneratedScore (summary_of sub)
              \<and> s_aiGeneratedScore (summary_of sub) \<le> 1)"
proof -
  note a = analyze_files [OF assms]
  have from_file: "\<And>r. r \<in> set (files sub) \<Longrightarrow> \<exists>f. analyzeFile d f opts = Inr r"
    using list_all2_right [OF a(2)] by blast
  have ne: "files sub \<noteq> []" using a(1) a(2) by (auto simp: list_all2_Nil2)
  have p: "\<And>r. r \<in> set (files sub) \<Longrightarrow>
            (\<forall>m \<in> set (matches r). 0 \<le> m_similarity m \<and> m_similarity m \<le> 1)
            \<and> 0 \<le> plagiarismScore r \<and> plagiarismScore r \<le> 1"
    using from_file analyzeFile_bounds by blast
  have sp: "0 \<le> s_plagiarismScore (summary_of sub) \<and> s_plagiarismScore (summary_of sub) \<le> 1"
    unfolding a(3) using ne p by (intro mean_bounds) auto
  have ai: "(\<forall>r \<in> set (files sub). 0 \<le> aiGeneratedScore r \<and> aiGeneratedScore r \<le> 1)
              \<and> 0 \<le> s_aiGeneratedScore (summary_of sub)
              \<and> s_aiGeneratedScore (summary_of sub) \<le> 1"
    if o: "\<forall>src lang. 0 \<le> openaiAnalysis (gemini (heur d)) src lang
                       \<and> openaiAnalysis (gemini (heur d)) src lang \<le> 1"
  proof -
    have each: "\<And>r. r \<in> set (files sub) \<Longrightarrow> 0 \<le> aiGeneratedScore r \<and> aiGeneratedScore r \<le> 1"
      using from_file analyzeFile_ai_bounds o by blast
    have "0 \<le> s_aiGeneratedScore (summary_of sub) \<and> s_aiGeneratedScore (summary_of sub) \<le> 1"
      unfolding a(4) using ne each by (intro mean_bounds) auto
    with each show ?thesis by blast
  qed
  from p sp ai show ?thesis by blast
qed

lemma add_analyze: "analyze web_deps [add_file] default_options = Inr add_submission"
proof -
  have "analyze_loop web_deps default_options [add_file] ([], [], 0) =
      Inr ([add_result], [\<lparr>hr_filename = ''add.js'', hr_score = 1\<rparr>], 1)"
    by (simp add: add_analysis) (simp add: add_result_def add_file_def)
  then show ?thesis
    by (simp add: analyze_def add_submission_def Let_def) (simp add: add_result_def)
qed

lemma no_model_opinion: "gemini h = None \<Longrightarrow> openaiAnalysis (gemini h) src lang = 0"
  by (simp add: openaiAnalysis_def)

theorem analyze_scores_bounded_witness:
  "analyze web_deps [add_file] default_options = Inr add_submission
   \<and> (\<forall>src lang. openaiAnalysis (gemini (heur web_deps)) src lang = 0)
   \<and> files add_submission = [add_result]
   \<and> map m_similarity (matches add_result) = [1]
   \<and> plagiarismScore add_result = 1 \<and> aiGeneratedScore add_result = 0.08
   \<and> s_plagiarismScore (summary_of add_submission) = 1
   \<and> s_aiGeneratedScore (summary_of add_submission) = 0.08
   \<and> 0 \<le> s_aiGeneratedScore (summary_of add_submission)
   \<and> s_aiGeneratedScore (summary_of add_submission) \<le> 1"
proof -
  have g: "gemini (heur web_deps) = None"
    by (simp add: web_deps_def services_def add_heuristics_def)
  have o: "\<forall>src lang. openaiAnalysis (gemini (heur web_deps)) src lang = 0"
    by (simp add: no_model_opinion [OF g])
  from analyze_scores_bounded [OF add_analyze] o add_analyze show ?thesis
    by (simp add: add_submission_def add_result_def page_match_def)
qed

lemma chatty_opinion:
  "openaiAnalysis (gemini chatty_heuristics) src lang = 20"
  by (simp add: openaiAnalysis_def chatty_heuristics_def add_heuristics_def probabilityMatch_def
      is_digit_def parseFloat_def digits_value_def digit_value_def Let_def)

text \<open>
  The claim as stated fails when the model answers in free text: the first number of the
  reply is taken, here the 2000 of \<^verbatim>\<open>2000 characters\<close>, and divided by 100, and the
  file's AI score is above 1.
\<close>

theorem aiGeneratedScore_above_one:
  "map_sum message aiGeneratedScore (analyzeFile chatty_deps add_file default_options)
     = Inr (202 / 25)
   \<and> (1::real) < 202 / 25"
proof -
  have t: "content add_file = Text add_unit" by (simp add: add_file_def)
  have o: "detectAI default_options" by (simp add: default_options_def)
  have h: "heur chatty_deps = chatty_heuristics" by (simp add: chatty_deps_def)
  have l: "language add_file = ''javascript''" by (simp add: add_file_def)
  have p: "aiProbability (detectAIGeneratedCode chatty_heuristics (Text add_unit) ''javascript'') = 202 / 25"
    by (simp add: detectAI_Text chatty_opinion)
      (simp add: chatty_heuristics_def add_heuristics_def add_signals_def add_stats_def
        analyzeAIPatterns_def pattern_scores_def statisticalAnalysis_def Let_def)
  from analyzeFile_Text [OF t, of compareTwoStrings chatty_deps default_options]
  show ?thesis by (auto simp: o h l p)
qed

section \<open>The search operations\<close>

lemma so_results_fail:
  assumes "\<exists>q \<in> set questions. answers_fail key net q"
  shows "\<exists>e. so_results key net ecfa questions results = Inl e"
  using assms
proof (induction questions arbitrary: results)
  case Nil
  then show ?case by simp
next
  case (Cons question questions)
  show ?case
  proof (cases "answers_fail key net question")
    case True
    then show ?thesis by (auto simp: answers_fail_def split: sum.splits)
  next
    case False
    with Cons.prems have rest: "\<exists>q \<in> set questions. answers_fail key net q" by simp
    have ih: "\<exists>e. so_results key net ecfa questions rs = Inl e" for rs
      using Cons.IH [OF rest] .
    show ?thesis
    proof (cases "answer_count question > 0")
      case c: True
      with False obtain a where a: "so_answers net key (question_id question) = Inr a"
        by (auto simp: answers_fail_def split: sum.splits)
      show ?thesis
      proof (cases a)
        case None
        with c a ih show ?thesis by simp
      next
        case (Some bodies)
        with c a ih show ?thesis by (cases bodies) simp_all
      qed
    next
      case c: False
      with ih show ?thesis by simp
    qed
  qed
qed

lemma so_results_ok:
  assumes "\<not> (\<exists>q \<in> set questions. answers_fail key net q)"
  shows "so_results key net ecfa questions results =
           Inr (results @ concat (map (so_candidates key net ecfa) questions))"
  using assms
proof (induction questions arbitrary: results)
  case Nil
  then show ?case by simp
next
  case (Cons question questions)
  then have nf: "\<not> answers_fail key net question"
    and rest: "\<not> (\<exists>q \<in> set questions. answers_fail key net q)" by simp_all
  note ih = Cons.IH [OF rest]
  show ?case
  proof (cases "answer_count question > 0")
    case c: True
    with nf obtain a where a: "so_answers net key (question_id question) = Inr a"
      by (auto simp: answers_fail_def split: sum.splits)
    show ?thesis
    proof (cases a)
      case None
      with c a ih show ?thesis by (simp add: so_candidates_def)
    next
      case (Some bodies)
      with c a ih show ?thesis by (cases bodies) (simp_all add: so_candidates_def)
    qed
  next
    case c: False
    with ih show ?thesis by (simp add: so_candidates_def)
  qed
qed

lemma try_catch_list:
  "try_catch body (\<lambda>error. Inr []) = Inr (case body of Inl e \<Rightarrow> [] | Inr found \<Rightarrow> found)"
  by (cases body) (simp_all add: try_catch_def)

lemma searchWeb_value:
  "searchWeb key net query lang =
     Inr (case key of
            None \<Rightarrow> []
          | Some k \<Rightarrow>
              if k = [] then []
              else (case serpapi_get net k (web_query query lang) of
                      Inr (Some items) \<Rightarrow> map web_candidate items
                    | _ \<Rightarrow> []))"
  unfolding searchWeb_def try_catch_list
  by (simp add: web_query_def web_candidate_def Let_def split: option.splits sum.splits)

lemma searchCode_value:
  "searchCode token net query lang =
     Inr (case octokit_search_code net token (github_query query lang) of
            Inr (Some items) \<Rightarrow> map github_candidate items
          | _ \<Rightarrow> [])"
  unfolding searchCode_def try_catch_list
  by (simp add: github_query_def github_candidate_def Let_def split: option.splits sum.splits)

lemma searchStackOverflow_value:
  "searchStackOverflow skey net ecfa query lang =
     Inr (case so_search net (so_key skey) (so_query query lang) lang of
            Inr (Some questions) \<Rightarrow>
              if \<exists>q \<in> set questions. answers_fail (so_key skey) net q then []
              else concat (map (so_candidates (so_key skey) net ecfa) questions)
          | _ \<Rightarrow> [])"
proof (cases "so_search net (so_key skey) (so_query query lang) lang")
  case (Inl e)
  then show ?thesis
    unfolding searchStackOverflow_def try_catch_list by (simp add: so_query_def Let_def)
next
  case (Inr items)
  show ?thesis
  proof (cases items)
    case None
    with Inr show ?thesis
      unfolding searchStackOverflow_def try_catch_list by (simp add: so_query_def Let_def)
  next
    case (Some questions)
    show ?thesis
    proof (cases "\<exists>q \<in> set questions. answers_fail (so_key skey) net q")
      case True
      from so_results_fail [OF True, of ecfa "[]"] obtain e where
        "so_results (so_key skey) net ecfa questions [] = Inl e" by blast
      with Inr Some True show ?thesis
        unfolding searchStackOverflow_def try_catch_list by (simp add: so_query_def Let_def)
    next
      case False
      from so_results_ok [OF False, of ecfa "[]"] Inr Some False show ?thesis
        unfolding searchStackOverflow_def try_catch_list by (simp add: so_query_def Let_def)
    qed
  qed
qed

text \<open>
  Claim C7, as amended. None of the three search operations throws: each returns a list
  of candidates whatever the remote side does. The list is empty when the request of the
  operation fails, and for Stack Overflow also when the answers request of any question
  fails, whatever was found before. Without a key the web search returns the empty list
  and sends nothing. The Stack Overflow and GitHub searches have no such test: Stack
  Overflow sends the key \<^verbatim>\<open>anonymous\<close>, GitHub whatever token there is or none, and each
  returns the candidates made of what the response holds.
\<close>

theorem search_never_throws:
  "(\<exists>found. searchWeb key net query lang = Inr found)
   \<and> (\<exists>found. searchStackOverflow skey net extract_code query lang = Inr found)
   \<and> (\<exists>found. searchCode token net query lang = Inr found)
   \<and> (key = None \<or> key = Some [] \<longrightarrow> searchWeb key net query lang = Inr [])
   \<and> (\<forall>k e. k \<noteq> [] \<and> serpapi_get net k (web_query query lang) = Inl e
        \<longrightarrow> searchWeb (Some k) net query lang = Inr [])
   \<and> (\<forall>k. k \<noteq> [] \<longrightarrow>
        searchWeb (Some k) net query lang =
          Inr (case serpapi_get net k (web_query query lang) of
                 Inr (Some items) \<Rightarrow> map web_candidate items
               | _ \<Rightarrow> []))
   \<and> (\<forall>e. octokit_search_code net token (github_query query lang) = Inl e
        \<longrightarrow> searchCode token net query lang = Inr [])
   \<and> searchCode token net query lang =
        Inr (case octokit_search_code net token (github_query query lang) of
               Inr (Some items) \<Rightarrow> map github_candidate items
             | _ \<Rightarrow> [])
   \<and> (\<forall>e. so_search net (so_key skey) (so_query query lang) lang = Inl e
        \<longrightarrow> searchStackOverflow skey net extract_code query lang = Inr [])
   \<and> (\<forall>questions.
        so_search net (so_key skey) (so_query query lang) lang = Inr (Some questions)
        \<and> (\<exists>q \<in> set questions. answers_fail (so_key skey) net q)
        \<longrightarrow> searchStackOverflow skey net extract_code query lang = Inr [])
   \<and> searchStackOverflow skey net extract_code query lang =
        Inr (case so_search net (so_key skey) (so_query query lang) lang of
               Inr (Some questions) \<Rightarrow>
                 if \<exists>q \<in> set questions. answers_fail (so_key skey) net q then []
                 else concat (map (so_candidates (so_key skey) net extract_code) questions)
             | _ \<Rightarrow> [])
   \<and> so_key None = ''anonymous'' \<and> so_key (Some []) = ''anonymous''
   \<and> (\<forall>k. k \<noteq> [] \<longrightarrow> so_key (Some k) = k)"
proof -
  note w = searchWeb_value [of key net query lang]
  note s = searchStackOverflow_value [of skey net extract_code query lang]
  note g = searchCode_value [of token net query lang]
  have w0: "key = None \<or> key = Some [] \<longrightarrow> searchWeb key net query lang = Inr []"
    by (auto simp: w)
  have w1: "\<forall>k e. k \<noteq> [] \<and> serpapi_get net k (web_query query lang) = Inl e
        \<longrightarrow> searchWeb (Some k) net query lang = Inr []"
    by (simp add: searchWeb_value)
  have w2: "\<forall>k. k \<noteq> [] \<longrightarrow>
        searchWeb (Some k) net query lang =
          Inr (case serpapi_get net k (web_query query lang) of
                 Inr (Some items) \<Rightarrow> map web_candidate items
               | _ \<Rightarrow> [])"
    by (simp add: searchWeb_value)
  have g1: "\<forall>e. octokit_search_code net token (github_query query lang) = Inl e
        \<longrightarrow> searchCode token net query lang = Inr []"
    by (simp add: g)
  have s1: "\<forall>e. so_search net (so_key skey) (so_query query lang) lang = Inl e
        \<longrightarrow> searchStackOverflow skey net extract_code query lang = Inr []"
    by (simp add: s)
  have s2: "\<forall>questions.
        so_search net (so_key skey) (so_query query lang) lang = Inr (Some questions)
        \<and> (\<exists>q \<in> set questions. answers_fail (so_key skey) net q)
        \<longrightarrow> searchStackOverflow skey net extract_code query lang = Inr []"
    by (simp add: s)
  have k: "so_key None = ''anonymous'' \<and> so_key (Some []) = ''anonymous''
      \<and> (\<forall>k. k \<noteq> [] \<longrightarrow> so_key (Some k) = k)"
    by (simp add: so_key_def)
  have e: "(\<exists>found. searchWeb key net query lang = Inr found)
     \<and> (\<exists>found. searchStackOverflow skey net extract_code query lang = Inr found)
     \<and> (\<exists>found. searchCode token net query lang = Inr found)"
    using w s g by blast
  from e w0 w1 w2 g1 g s1 s2 s k show ?thesis by blast
qed

lemma sorted_answer:
  "extractCodeFromAnswer ''<pre><code>xs.sort()</code></pre>'' = ''xs.sort()'' @ [CHR 0x0A] @ ''xs.sort()''"
  by (simp add: extractCodeFromAnswer_def)

lemma flaky_facts:
  "so_search flaky_remote ''anonymous'' (so_query ''sort a list'' ''python'') ''python''
     = Inr (Some [sort_question, second_question])"
  "answers_fail ''anonymous'' flaky_remote second_question"
  "octokit_search_code flaky_remote None (github_query ''sort a list'' ''python'')
     = Inr (Some [sort_item])"
  "serpapi_get flaky_remote ''k'' (web_query ''sort a list'' ''python'')
     = Inl (RequestFailed ''timeout of 10000ms exceeded'')"
  by (simp_all add: flaky_remote_def answers_fail_def second_question_def)

lemma open_facts:
  "so_search open_remote ''anonymous'' (so_query ''sort a list'' ''python'') ''python''
     = Inr (Some [sort_question])"
  "\<not> answers_fail ''anonymous'' open_remote sort_question"
  "so_candidates ''anonymous'' open_remote extractCodeFromAnswer sort_question =
     [\<lparr>c_title = Some ''How do I sort a list?'', c_link = Some ''https://stackoverflow.com/q/1'',
       c_snippet = Some (''xs.sort()'' @ [CHR 0x0A] @ ''xs.sort()''), c_url = None\<rparr>]"
  by (simp_all add: open_remote_def answers_fail_def so_candidates_def sort_question_def
      sorted_answer)

lemma web_facts:
  "serpapi_get web_remote ''k'' (web_query ''sort a list'' ''python'') = Inr (Some [unrelated_page])"
  "so_search web_remote ''k'' (so_query ''sort a list'' ''python'') ''python''
     = Inl (RequestFailed ''Request failed with status code 429'')"
  by (simp_all add: web_remote_def)

theorem search_never_throws_witness:
  "so_search flaky_remote ''anonymous'' (so_query ''sort a list'' ''python'') ''python''
     = Inr (Some [sort_question, second_question])
   \<and> answers_fail ''anonymous'' flaky_remote second_question
   \<and> searchStackOverflow None flaky_remote extractCodeFromAnswer ''sort a list'' ''python'' = Inr []
   \<and> searchCode None flaky_remote ''sort a list'' ''python'' = Inr [github_candidate sort_item]
   \<and> serpapi_get flaky_remote ''k'' (web_query ''sort a list'' ''python'')
       = Inl (RequestFailed ''timeout of 10000ms exceeded'')
   \<and> searchWeb (Some ''k'') flaky_remote ''sort a list'' ''python'' = Inr []
   \<and> searchWeb None web_remote ''sort a list'' ''python'' = Inr []
   \<and> searchWeb (Some ''k'') web_remote ''sort a list'' ''python'' = Inr [web_candidate unrelated_page]
   \<and> searchStackOverflow (Some ''k'') web_remote extractCodeFromAnswer ''sort a list'' ''python''
       = Inr []
   \<and> searchStackOverflow None open_remote extractCodeFromAnswer ''sort a list'' ''python'' =
       Inr [\<lparr>c_title = Some ''How do I sort a list?'', c_link = Some ''https://stackoverflow.com/q/1'',
             c_snippet = Some (''xs.sort()'' @ [CHR 0x0A] @ ''xs.sort()''), c_url = None\<rparr>]"
proof -
  have k: "so_key None = ''anonymous''" "so_key (Some ''k'') = ''k''"
    by (simp_all add: so_key_def)
  from search_never_throws
      [of "Some ''k''" flaky_remote "''sort a list''" "''python''" None extractCodeFromAnswer None]
  have f: "searchStackOverflow None flaky_remote extractCodeFromAnswer ''sort a list'' ''python'' = Inr []"
    "searchCode None flaky_remote ''sort a list'' ''python'' = Inr [github_candidate sort_item]"
    "searchWeb (Some ''k'') flaky_remote ''sort a list'' ''python'' = Inr []"
    by (simp_all add: k flaky_facts)
  from search_never_throws
      [of None web_remote "''sort a list''" "''python''" "Some ''k''" extractCodeFromAnswer None]
  have w: "searchWeb None web_remote ''sort a list'' ''python'' = Inr []"
    "searchStackOverflow (Some ''k'') web_remote extractCodeFromAnswer ''sort a list'' ''python''
       = Inr []"
    by (simp_all add: k web_facts)
  from search_never_throws
      [of "Some ''k''" web_remote "''sort a list''" "''python''" None extractCodeFromAnswer None]
  have w2: "searchWeb (Some ''k'') web_remote ''sort a list'' ''python'' = Inr [web_candidate unrelated_page]"
    by (simp add: web_facts)
  from search_never_throws
      [of None open_remote "''sort a list''" "''python''" None extractCodeFromAnswer None]
  have o: "searchStackOverflow None open_remote extractCodeFromAnswer ''sort a list'' ''python'' =
       Inr [\<lparr>c_title = Some ''How do I sort a list?'', c_link = Some ''https://stackoverflow.com/q/1'',
             c_snippet = Some (''xs.sort()'' @ [CHR 0x0A] @ ''xs.sort()''), c_url = None\<rparr>]"
    by (simp add: k open_facts)
  from f w w2 o flaky_facts show ?thesis by simp
qed

text \<open>
  The claim as stated fails for the Stack Overflow search: with no key configured the
  request is sent with the key \<^verbatim>\<open>anonymous\<close>, and an answering remote side yields a
  candidate.
\<close>

theorem searchStackOverflow_without_key:
  "searchStackOverflow None open_remote extractCodeFromAnswer ''sort a list'' ''python'' =
     Inr [\<lparr>c_title = Some ''How do I sort a list?'', c_link = Some ''https://stackoverflow.com/q/1'',
           c_snippet = Some (''xs.sort()'' @ [CHR 0x0A] @ ''xs.sort()''), c_url = None\<rparr>]
   \<and> searchStackOverflow None open_remote extractCodeFromAnswer ''sort a list'' ''python'' \<noteq> Inr []"
  by (simp add: searchStackOverflow_def try_catch_def open_remote_def sort_question_def
      so_key_def sorted_answer Let_def)

section \<open>A file that cannot be analysed\<close>

text \<open>
  A file whose content is present, text or not, gets a result, and a submission of such
  files gets one as a whole.
\<close>

lemma analyzeFile_returns:
  assumes "content file \<noteq> Nullish"
  shows "\<exists>r. analyzeFile d file opts = Inr r"
proof (cases "content file")
  case (Text src)
  from analyzeFile_Text [OF Text, of compareTwoStrings d opts] show ?thesis by blast
next
  case (NonText len)
  from analyzeFile_NonText [OF NonText, of compareTwoStrings d opts] show ?thesis by blast
next
  case Nullish
  with assms show ?thesis by simp
qed

lemma analyze_loop_returns:
  assumes "\<And>f. f \<in> set fs \<Longrightarrow> content f \<noteq> Nullish"
  shows "\<exists>acc'. analyze_loop d opts fs acc = Inr acc'"
  using assms
proof (induction fs arbitrary: acc)
  case Nil
  show ?case by (rule exI) simp
next
  case (Cons f fs)
  obtain results high n where acc: "acc = (results, high, n)" by (rule prod_cases3)
  from Cons.prems have "content f \<noteq> Nullish" by simp
  then obtain r where r: "analyzeFile d f opts = Inr r"
    using analyzeFile_returns by blast
  have "\<exists>acc'. analyze_loop d opts fs a = Inr acc'" for a
    using Cons.IH Cons.prems by simp
  with r show ?case by (simp add: acc)
qed

lemma analyze_returns:
  assumes "codeFiles \<noteq> []" and "\<And>f. f \<in> set codeFiles \<Longrightarrow> content f \<noteq> Nullish"
  shows "\<exists>sub. analyze d codeFiles opts = Inr sub"
proof -
  from analyze_loop_returns [of codeFiles d opts "([], [], 0)"] assms(2)
  obtain acc' where a: "analyze_loop d opts codeFiles ([], [], 0) = Inr acc'" by blast
  obtain results high n where "acc' = (results, high, n)" by (rule prod_cases3)
  with a assms(1) show ?thesis by (simp add: analyze_def Let_def)
qed

text \<open>
  Claim C6: an exception raised while one file is analysed is caught by
  \<^verbatim>\<open>analyzeFile\<close>, which returns a result with the error and zero scores, and the other
  files of the submission are analysed as usual. This holds for an exception raised
  inside the \<^verbatim>\<open>try\<close> (a content that is not a string). It fails for a file
  without content, here the second of a submission of two: the property read that throws
  is outside the \<^verbatim>\<open>try\<close>, \<^verbatim>\<open>analyzeFile\<close> throws instead of returning a result, and
  the handler answers the whole submission with status 500, although the first file was
  analysed.
\<close>

theorem analyze_aborts_on_missing_content:
  "analyzeFile web_deps no_content_file default_options =
     Inl (TypeError ''Cannot read properties of undefined (reading length)'')
   \<and> analyze web_deps [add_file, no_content_file] default_options =
     Inl (ServerError ''Analysis failed: Cannot read properties of undefined (reading length)'')
   \<and> analyzeFile web_deps add_file default_options = Inr add_result"
proof -
  have n: "analyzeFile web_deps no_content_file default_options =
     Inl (TypeError ''Cannot read properties of undefined (reading length)'')"
    by (simp add: analyzeFile_with_def no_content_file_def)
  then show ?thesis
    by (simp add: analyze_def add_analysis)
qed

section \<open>Aggregation of the sources\<close>

























end
